theory Spec2Isabelle
  imports Main "HOL-Library.Sublist" "HOL-Library.Word"
begin

section \<open>Python values and the built-ins the agent uses\<close>

text \<open>
  The node agent (\<^verbatim>\<open>scripts/node_agent.py\<close>) works on whatever \<^verbatim>\<open>json.loads\<close>
  returns: \<^verbatim>\<open>None\<close>, booleans, integers, strings, lists and dictionaries. Those are
  the values of type \<open>json\<close>. A dictionary is an association list read with
  \<open>map_of\<close>, its keys listed once in insertion order. Strings are lists of
  \<open>char\<close> (code points below 256). JSON numbers with a fraction are not part of the
  model.

  The agent has no \<^verbatim>\<open>try\<close> block outside the transport, so an exception raised by a
  built-in leaves the probe and the pipeline. Every built-in that can raise returns
  \<open>exn + 'a\<close>, with \<open>Inl\<close> for the exception.
\<close>

datatype json =
    JNull
  | JBool bool
  | JInt int
  | JStr string
  | JList "json list"
  | JObj "(string \<times> json) list"

datatype exn = AttributeError | TypeError | ValueError | KeyError

text \<open>\<^verbatim>\<open>needle in hay\<close> on two strings: \<open>needle\<close> occurs in \<open>hay\<close> as a contiguous run.\<close>

fun str_contains :: "string \<Rightarrow> string \<Rightarrow> bool" where
  "str_contains needle [] = (needle = [])"
| "str_contains needle (c # cs) = (prefix needle (c # cs) \<or> str_contains needle cs)"

text \<open>\<^verbatim>\<open>key in v\<close> for a string \<open>key\<close>: key membership on a dictionary, element
  membership on a list, substring test on a string, \<^verbatim>\<open>TypeError\<close> on anything else.\<close>

fun py_in :: "string \<Rightarrow> json \<Rightarrow> exn + bool" where
  "py_in k (JObj kvs) = Inr (map_of kvs k \<noteq> None)"
| "py_in k (JList xs) = Inr (JStr k \<in> set xs)"
| "py_in k (JStr s) = Inr (str_contains k s)"
| "py_in k v = Inl TypeError"

text \<open>\<^verbatim>\<open>v[key]\<close> for a string \<open>key\<close>.\<close>

fun py_getitem :: "json \<Rightarrow> string \<Rightarrow> exn + json" where
  "py_getitem (JObj kvs) k = (case map_of kvs k of None \<Rightarrow> Inl KeyError | Some x \<Rightarrow> Inr x)"
| "py_getitem v k = Inl TypeError"

text \<open>\<^verbatim>\<open>v.get(key, default)\<close>: only a dictionary has the method.\<close>

fun py_get :: "json \<Rightarrow> string \<Rightarrow> json \<Rightarrow> exn + json" where
  "py_get (JObj kvs) k d = Inr (case map_of kvs k of None \<Rightarrow> d | Some x \<Rightarrow> x)"
| "py_get v k d = Inl AttributeError"

text \<open>\<^verbatim>\<open>len(v)\<close>.\<close>

fun py_len :: "json \<Rightarrow> exn + int" where
  "py_len (JList xs) = Inr (int (length xs))"
| "py_len (JStr s) = Inr (int (length s))"
| "py_len (JObj kvs) = Inr (int (length kvs))"
| "py_len v = Inl TypeError"

text \<open>Truth value of a Python object, as \<^verbatim>\<open>if v\<close>, \<^verbatim>\<open>not v\<close> and \<^verbatim>\<open>v or w\<close> read it.\<close>

fun truthy :: "json \<Rightarrow> bool" where
  "truthy JNull = False"
| "truthy (JBool b) = b"
| "truthy (JInt i) = (i \<noteq> 0)"
| "truthy (JStr s) = (s \<noteq> [])"
| "truthy (JList xs) = (xs \<noteq> [])"
| "truthy (JObj kvs) = (kvs \<noteq> [])"

definition py_or :: "json \<Rightarrow> json \<Rightarrow> json" where
  "py_or v w = (if truthy v then v else w)"

fun is_list :: "json \<Rightarrow> bool" where
  "is_list (JList xs) = True"
| "is_list v = False"

text \<open>\<^verbatim>\<open>isinstance(v, int)\<close>: \<^verbatim>\<open>bool\<close> is a subclass of \<^verbatim>\<open>int\<close>.\<close>

fun is_int :: "json \<Rightarrow> bool" where
  "is_int (JInt i) = True"
| "is_int (JBool b) = True"
| "is_int v = False"

text \<open>\<^verbatim>\<open>v == i\<close> for an integer \<open>i\<close>: \<^verbatim>\<open>True == 1\<close> and \<^verbatim>\<open>False == 0\<close> hold in Python.\<close>

fun py_eq_int :: "json \<Rightarrow> int \<Rightarrow> bool" where
  "py_eq_int (JInt j) i = (j = i)"
| "py_eq_int (JBool b) i = (i = (if b then 1 else 0))"
| "py_eq_int v i = False"

fun py_eq_str :: "json \<Rightarrow> string \<Rightarrow> bool" where
  "py_eq_str (JStr t) s = (t = s)"
| "py_eq_str v s = False"

subsection \<open>\<^verbatim>\<open>str\<close> and \<^verbatim>\<open>repr\<close>\<close>

text \<open>The digit for a value below 16.\<close>

definition digit_char :: "nat \<Rightarrow> char" where
  "digit_char d = ''0123456789abcdef'' ! d"

fun dec_nat :: "nat \<Rightarrow> string" where
  "dec_nat n = (if n < 10 then [digit_char n] else dec_nat (n div 10) @ [digit_char (n mod 10)])"

definition dec_int :: "int \<Rightarrow> string" where
  "dec_int i = (if i < 0 then CHR ''-'' # dec_nat (nat (- i)) else dec_nat (nat i))"

definition hex2 :: "nat \<Rightarrow> string" where
  "hex2 n = [digit_char (n div 16), digit_char (n mod 16)]"

text \<open>\<^verbatim>\<open>repr\<close> of a string: double quotes when the text has a single quote and no
  double quote, single quotes otherwise; the quote and the backslash are escaped,
  control and non-printable characters are written \<^verbatim>\<open>\n\<close>, \<^verbatim>\<open>\r\<close>, \<^verbatim>\<open>\t\<close> or
  \<^verbatim>\<open>\xNN\<close>.\<close>

definition repr_char :: "char \<Rightarrow> char \<Rightarrow> string" where
  "repr_char q c =
     (let n = (of_char c :: nat) in
      if c = q \<or> n = 92 then [CHR 0x5C, c]
      else if n = 10 then [CHR 0x5C, CHR ''n'']
      else if n = 13 then [CHR 0x5C, CHR ''r'']
      else if n = 9 then [CHR 0x5C, CHR ''t'']
      else if n < 32 \<or> n = 127 \<or> (128 \<le> n \<and> n \<le> 160) \<or> n = 173
        then [CHR 0x5C, CHR ''x''] @ hex2 n
      else [c])"

definition repr_str :: "string \<Rightarrow> string" where
  "repr_str s =
     (let q = (if CHR 0x27 \<in> set s \<and> CHR 0x22 \<notin> set s
               then CHR 0x22 else CHR 0x27)
      in q # concat (map (repr_char q) s) @ [q])"

fun join :: "string \<Rightarrow> string list \<Rightarrow> string" where
  "join sep [] = []"
| "join sep [x] = x"
| "join sep (x # y # ys) = x @ sep @ join sep (y # ys)"

primrec py_repr :: "json \<Rightarrow> string"
  and py_repr_list :: "json list \<Rightarrow> string list"
  and py_repr_items :: "(string \<times> json) list \<Rightarrow> string list"
  and py_repr_item :: "string \<times> json \<Rightarrow> string"
where
  "py_repr JNull = ''None''"
| "py_repr (JBool b) = (if b then ''True'' else ''False'')"
| "py_repr (JInt i) = dec_int i"
| "py_repr (JStr s) = repr_str s"
| "py_repr (JList xs) = ''['' @ join '', '' (py_repr_list xs) @ '']''"
| "py_repr (JObj kvs) = ''{'' @ join '', '' (py_repr_items kvs) @ ''}''"
| "py_repr_list [] = []"
| "py_repr_list (x # xs) = py_repr x # py_repr_list xs"
| "py_repr_items [] = []"
| "py_repr_items (kv # kvs) = py_repr_item kv # py_repr_items kvs"
| "py_repr_item (k, v) = repr_str k @ '': '' @ py_repr v"

text \<open>\<^verbatim>\<open>str(v)\<close>, which an f-string applies to each \<^verbatim>\<open>{v}\<close>: a string is itself,
  everything else is its \<^verbatim>\<open>repr\<close>.\<close>

definition py_str :: "json \<Rightarrow> string" where
  "py_str v = (case v of JStr s \<Rightarrow> s | _ \<Rightarrow> py_repr v)"

subsection \<open>\<^verbatim>\<open>int(...)\<close> and \<^verbatim>\<open>str.replace\<close>\<close>

text \<open>Whitespace that \<^verbatim>\<open>int\<close> strips from both ends of its argument.\<close>

definition is_space :: "char \<Rightarrow> bool" where
  "is_space c =
     (let n = (of_char c :: nat) in (9 \<le> n \<and> n \<le> 13) \<or> (28 \<le> n \<and> n \<le> 32) \<or> n = 133 \<or> n = 160)"

definition strip :: "string \<Rightarrow> string" where
  "strip s = rev (dropWhile is_space (rev (dropWhile is_space s)))"

definition digit_val :: "char \<Rightarrow> nat option" where
  "digit_val c =
     (let n = (of_char c :: nat) in
      if 48 \<le> n \<and> n \<le> 57 then Some (n - 48)
      else if 97 \<le> n \<and> n \<le> 122 then Some (n - 87)
      else if 65 \<le> n \<and> n \<le> 90 then Some (n - 55)
      else None)"

fun split_on :: "char \<Rightarrow> string \<Rightarrow> string list" where
  "split_on sep [] = [[]]"
| "split_on sep (c # cs) =
     (if c = sep then [] # split_on sep cs
      else (case split_on sep cs of g # gs \<Rightarrow> (c # g) # gs | [] \<Rightarrow> [[c]]))"

text \<open>Digits of the base in groups separated by single underscores; no group is empty.\<close>

definition parse_digits :: "nat \<Rightarrow> string \<Rightarrow> nat option" where
  "parse_digits base s =
     (let groups = split_on CHR ''_'' s; ds = concat groups in
      if [] \<in> set groups then None
      else if list_all (\<lambda>c. case digit_val c of None \<Rightarrow> False | Some d \<Rightarrow> d < base) ds
        then Some (foldl (\<lambda>acc c. acc * base + the (digit_val c)) 0 ds)
      else None)"

definition int_of_str :: "nat \<Rightarrow> string \<Rightarrow> exn + int" where
  "int_of_str base s =
     (let t = strip s;
          neg = prefix ''-'' t;
          r = (if prefix ''-'' t \<or> prefix ''+'' t then drop 1 t else t);
          r2 = (if base = 16 \<and> (prefix ''0x'' r \<or> prefix ''0X'' r)
                then (if prefix ''_'' (drop 2 r) then drop 3 r else drop 2 r)
                else r)
      in case parse_digits base r2 of
           None \<Rightarrow> Inl ValueError
         | Some n \<Rightarrow> Inr (if neg then - int n else int n))"

text \<open>\<^verbatim>\<open>int(v)\<close>. (Recent interpreters also refuse decimal strings of more than 4300
  digits; that limit is not modelled.)\<close>

fun py_int :: "json \<Rightarrow> exn + int" where
  "py_int (JInt i) = Inr i"
| "py_int (JBool b) = Inr (if b then 1 else 0)"
| "py_int (JStr s) = int_of_str 10 s"
| "py_int v = Inl TypeError"

text \<open>\<^verbatim>\<open>int(v, 16)\<close>: with an explicit base only a string is accepted.\<close>

fun py_int16 :: "json \<Rightarrow> exn + int" where
  "py_int16 (JStr s) = int_of_str 16 s"
| "py_int16 v = Inl TypeError"

text \<open>\<^verbatim>\<open>s.replace(old, new)\<close>: every occurrence of \<open>old\<close>, found from the left and not
  overlapping, becomes \<open>new\<close>.\<close>

function py_replace :: "string \<Rightarrow> string \<Rightarrow> string \<Rightarrow> string" where
  "py_replace old new s =
     (if old = [] then new @ concat (map (\<lambda>c. c # new) s)
      else if s = [] then []
      else if prefix old s then new @ py_replace old new (drop (length old) s)
      else hd s # py_replace old new (tl s))"
  by pat_completeness auto
termination
  by (relation "measure (\<lambda>(old, new, s). length s)") (auto simp: neq_Nil_conv)

declare py_replace.simps [simp del]

section \<open>Transport\<close>

text \<open>
  The agent talks to the network through \<^verbatim>\<open>urllib\<close> (the branch of the import block
  taken when \<^verbatim>\<open>aiohttp\<close> is not installed). One HTTP exchange ends in one of four ways:
  a body that parsed as JSON, an \<^verbatim>\<open>HTTPError\<close> with its status code and reason, a
  \<^verbatim>\<open>URLError\<close> with the text of its reason, or any other exception with its text
  (a timeout, a body that is not JSON).

  The network is a parameter: \<open>http e n r\<close> is how the exchange for request \<open>r\<close> ends
  when \<open>n\<close> requests were sent before it. \<open>randbelow e n\<close> is the number that
  \<^verbatim>\<open>secrets.choice\<close> draws for a sequence of length \<open>n\<close>.
\<close>

datatype request = POST string json | GET string

datatype http_outcome =
    Body json
  | HTTPError int string
  | URLError string
  | OtherError string

record env =
  http :: "nat \<Rightarrow> request \<Rightarrow> http_outcome"
  randbelow :: "nat \<Rightarrow> nat"

text \<open>\<^verbatim>\<open>str(e)\<close> of the exception an exchange ended with.\<close>

fun str_exc :: "http_outcome \<Rightarrow> string" where
  "str_exc (HTTPError c msg) = ''HTTP Error '' @ dec_int c @ '': '' @ msg"
| "str_exc (URLError reason) = ''<urlopen error '' @ reason @ ''>''"
| "str_exc (OtherError s) = s"
| "str_exc (Body j) = []"

definition error_obj :: "int \<Rightarrow> string \<Rightarrow> json" where
  "error_obj c m = JObj [(''error'', JObj [(''code'', JInt c), (''message'', JStr m)])]"

section \<open>The agent\<close>

record TestResult =
  name :: string
  passed :: bool
  message :: string
  details :: "json option"

text \<open>The four attributes of \<^verbatim>\<open>NodeAgent\<close>, and \<open>wire\<close>: the requests sent so far, in
  order. \<open>wire\<close> is not an attribute of the class; it records what left the process.\<close>

record NodeAgent =
  node_url :: string
  faucet_url :: "string option"
  results :: "TestResult list"
  rpc_id :: int
  wire :: "request list"

definition NodeAgent_init :: "string \<Rightarrow> string option \<Rightarrow> NodeAgent" where
  "NodeAgent_init node faucet =
     \<lparr> node_url = py_replace ''wss://'' ''https://'' (py_replace ''ws://'' ''http://'' node),
       faucet_url = faucet,
       results = [],
       rpc_id = 0,
       wire = [] \<rparr>"

text \<open>A method of the agent takes the agent and returns the agent as it left it, with
  either the value returned or the exception raised. The methods \<^verbatim>\<open>_next_id\<close>,
  \<^verbatim>\<open>_make_request\<close> and \<^verbatim>\<open>record\<close> are \<open>next_id\<close>, \<open>make_request\<close> and
  \<open>record_result\<close> here.\<close>

type_synonym 'a action = "NodeAgent \<Rightarrow> (exn + 'a) \<times> NodeAgent"

definition ret :: "'a \<Rightarrow> 'a action" where
  "ret v a = (Inr v, a)"

definition lift :: "exn + 'a \<Rightarrow> 'a action" where
  "lift r a = (r, a)"

definition and_then :: "'a action \<Rightarrow> ('a \<Rightarrow> 'b action) \<Rightarrow> 'b action" where
  "and_then m f a = (case m a of (Inl x, a') \<Rightarrow> (Inl x, a') | (Inr v, a') \<Rightarrow> f v a')"

definition next_id :: "int action" where
  "next_id a = (Inr (rpc_id a + 1), a\<lparr>rpc_id := rpc_id a + 1\<rparr>)"

text \<open>What \<^verbatim>\<open>_make_request\<close> returns for each way the exchange can end: the parsed body,
  or the dictionary built by the matching \<^verbatim>\<open>except\<close> clause.\<close>

definition make_request_result :: "http_outcome \<Rightarrow> json" where
  "make_request_result out =
     (case out of
        Body j \<Rightarrow> j
      | HTTPError c msg \<Rightarrow> error_obj c (str_exc (HTTPError c msg))
      | URLError reason \<Rightarrow> error_obj (- 1) reason
      | OtherError s \<Rightarrow> error_obj (- 1) s)"

definition make_request :: "env \<Rightarrow> string \<Rightarrow> json \<Rightarrow> json action" where
  "make_request e url payload a =
     (Inr (make_request_result (http e (length (wire a)) (POST url payload))),
      a\<lparr>wire := wire a @ [POST url payload]\<rparr>)"

text \<open>The JSON-RPC envelope; \<^verbatim>\<open>params or []\<close> turns a missing \<^verbatim>\<open>params\<close> into the
  empty list.\<close>

definition rpc_envelope :: "int \<Rightarrow> string \<Rightarrow> json list option \<Rightarrow> json" where
  "rpc_envelope i method params =
     JObj [(''jsonrpc'', JStr ''2.0''),
           (''id'', JInt i),
           (''method'', JStr method),
           (''params'', JList (case params of None \<Rightarrow> [] | Some ps \<Rightarrow> ps))]"

definition rpc_call :: "env \<Rightarrow> string \<Rightarrow> json list option \<Rightarrow> json action" where
  "rpc_call e method params =
     and_then next_id (\<lambda>i a. make_request e (node_url a) (rpc_envelope i method params) a)"

text \<open>What the \<^verbatim>\<open>GET\<close> branch of \<^verbatim>\<open>faucet_call\<close> returns: the parsed body, or the
  error dictionary of its single \<^verbatim>\<open>except Exception\<close> clause.\<close>

definition faucet_get_result :: "http_outcome \<Rightarrow> json" where
  "faucet_get_result out =
     (case out of Body j \<Rightarrow> j | _ \<Rightarrow> error_obj (- 1) (str_exc out))"

text \<open>\<^verbatim>\<open>not s\<close> for an optional string: true for \<^verbatim>\<open>None\<close> and for the empty string.\<close>

definition py_not :: "string option \<Rightarrow> bool" where
  "py_not u = (case u of None \<Rightarrow> True | Some s \<Rightarrow> s = [])"

definition faucet_call :: "env \<Rightarrow> string \<Rightarrow> string \<Rightarrow> json option \<Rightarrow> json action" where
  "faucet_call e endpoint method data a =
     (if py_not (faucet_url a)
      then (Inr (JObj [(''error'', JObj [(''message'', JStr ''No faucet URL configured'')])]), a)
      else
        let url = the (faucet_url a) @ endpoint in
        if method = ''GET'' then
          (Inr (faucet_get_result (http e (length (wire a)) (GET url))),
           a\<lparr>wire := wire a @ [GET url]\<rparr>)
        else
          make_request e url (case data of None \<Rightarrow> JObj [] | Some d \<Rightarrow> py_or d (JObj [])) a)"

definition record_result :: "string \<Rightarrow> bool \<Rightarrow> string \<Rightarrow> json option \<Rightarrow> unit action" where
  "record_result nm ok msg det a =
     (Inr (), a\<lparr>results := results a @ [\<lparr>name = nm, passed = ok, message = msg, details = det\<rparr>]\<rparr>)"

section \<open>Probes\<close>

text \<open>Each \<^verbatim>\<open>test_*\<close> method, statement by statement. The calls to \<^verbatim>\<open>log\<close> only print
  and are left out.\<close>

definition test_connection :: "env \<Rightarrow> bool action" where
  "test_connection e =
     and_then (rpc_call e ''system_health'' None) (\<lambda>result.
     and_then (lift (py_in ''result'' result)) (\<lambda>has.
     if has then
       and_then (lift (py_getitem result ''result'')) (\<lambda>health.
       and_then (lift (py_get health ''peers'' (JInt 0))) (\<lambda>peers.
       and_then (lift (py_get health ''isSyncing'' (JBool False))) (\<lambda>syncing.
       and_then (record_result ''RPC Connection'' True
                   (''Connected - '' @ py_str peers @ '' peers, syncing='' @ py_str syncing)
                   (Some health)) (\<lambda>_.
       ret True))))
     else
       and_then (lift (py_get result ''error'' (JObj []))) (\<lambda>err.
       and_then (lift (py_get err ''message'' (JStr ''Unknown error''))) (\<lambda>msg.
       and_then (record_result ''RPC Connection'' False (''Failed: '' @ py_str msg) None) (\<lambda>_.
       ret False)))))"

definition test_chain_info :: "env \<Rightarrow> json action" where
  "test_chain_info e =
     and_then (rpc_call e ''system_chain'' None) (\<lambda>chain_result.
     and_then (lift (py_get chain_result ''result'' (JStr ''Unknown''))) (\<lambda>chain_name.
     and_then (rpc_call e ''chain_getHeader'' None) (\<lambda>header_result.
     and_then (lift (py_in ''result'' header_result)) (\<lambda>has_header.
     and_then (if has_header then
                 and_then (lift (py_getitem header_result ''result'')) (\<lambda>header.
                 and_then (lift (py_get header ''number'' (JStr ''0x0''))) (\<lambda>number.
                 lift (py_int16 number)))
               else ret 0) (\<lambda>block_number.
     and_then (rpc_call e ''state_getRuntimeVersion'' None) (\<lambda>runtime_result.
     and_then (lift (py_in ''result'' runtime_result)) (\<lambda>has_runtime.
     and_then (if has_runtime then
                 and_then (lift (py_getitem runtime_result ''result'')) (\<lambda>runtime.
                 and_then (lift (py_get runtime ''specVersion'' (JStr ''?''))) (\<lambda>spec_version.
                 ret (''v'' @ py_str spec_version)))
               else ret ''Unknown'') (\<lambda>runtime_version.
     and_then (rpc_call e ''system_name'' None) (\<lambda>name_result.
     and_then (lift (py_get name_result ''result'' (JStr ''Unknown''))) (\<lambda>node_name.
     let info = JObj [(''chain'', chain_name),
                      (''block'', JInt block_number),
                      (''runtime'', JStr runtime_version),
                      (''node_name'', node_name)] in
     and_then (record_result ''Chain Info'' True
                 (py_str chain_name @ '' @ block #'' @ dec_int block_number
                    @ '' ('' @ runtime_version @ '')'')
                 (Some info)) (\<lambda>_.
     ret info)))))))))))"

definition test_peers :: "env \<Rightarrow> json action" where
  "test_peers e =
     and_then (rpc_call e ''system_peers'' None) (\<lambda>result.
     and_then (lift (py_in ''result'' result)) (\<lambda>has.
     if has then
       and_then (lift (py_getitem result ''result'')) (\<lambda>peers.
       and_then (lift (py_len peers)) (\<lambda>peer_count.
       and_then (record_result ''Peer Connections'' (peer_count > 0)
                   (dec_int peer_count @ '' peers connected'')
                   (Some (JObj [(''peers'', peers)]))) (\<lambda>_.
       ret peers)))
     else
       and_then (record_result ''Peer Connections'' False ''Failed to get peers'' None) (\<lambda>_.
       ret (JList []))))"

definition test_faucet_health :: "env \<Rightarrow> bool action" where
  "test_faucet_health e a =
     (if py_not (faucet_url a) then
        and_then (record_result ''Faucet Health'' False ''No faucet URL configured'' None) (\<lambda>_.
        ret False) a
      else
        and_then (faucet_call e ''/health'' ''GET'' None) (\<lambda>result.
        and_then (lift (py_in ''error'' result)) (\<lambda>has_error.
        if has_error then
          and_then (lift (py_getitem result ''error'')) (\<lambda>err.
          and_then (lift (py_get err ''message'' (JStr ''Unknown error''))) (\<lambda>error_msg.
          and_then (if str_contains ''502'' (py_str error_msg)
                      \<or> str_contains ''Bad Gateway'' (py_str error_msg)
                    then record_result ''Faucet Health'' False
                           ''502 Bad Gateway - Faucet service is down'' None
                    else if str_contains ''Connection refused'' (py_str error_msg)
                    then record_result ''Faucet Health'' False
                           ''Connection refused - Faucet not running'' None
                    else record_result ''Faucet Health'' False
                           (''Error: '' @ py_str error_msg) None) (\<lambda>_.
          ret False)))
        else
          and_then (lift (py_get result ''status'' JNull)) (\<lambda>status.
          and_then (if py_eq_str status ''ok'' then ret True
                    else and_then (lift (py_get result ''healthy'' JNull)) (\<lambda>h. ret (truthy h)))
            (\<lambda>healthy.
          if healthy then
            and_then (record_result ''Faucet Health'' True ''Faucet service is healthy''
                        (Some result)) (\<lambda>_.
            ret True)
          else
            and_then (record_result ''Faucet Health'' True
                        (''Faucet responded: '' @ py_str result) (Some result)) (\<lambda>_.
            ret True))))) a)"

definition test_faucet_drip :: "env \<Rightarrow> string \<Rightarrow> bool action" where
  "test_faucet_drip e address a =
     (if py_not (faucet_url a) then
        and_then (record_result ''Faucet Drip'' False ''No faucet URL configured'' None) (\<lambda>_.
        ret False) a
      else
        and_then (faucet_call e ''/drip'' ''POST'' (Some (JObj [(''address'', JStr address)])))
          (\<lambda>result.
        and_then (lift (py_in ''error'' result)) (\<lambda>has_error.
        if has_error then
          and_then (lift (py_getitem result ''error'')) (\<lambda>err.
          and_then (lift (py_get err ''message'' (JStr ''Unknown''))) (\<lambda>msg.
          and_then (record_result ''Faucet Drip'' False (''Failed: '' @ py_str msg) None) (\<lambda>_.
          ret False)))
        else
          and_then (lift (py_get result ''success'' JNull)) (\<lambda>success.
          and_then (if truthy success then ret True
                    else and_then (lift (py_get result ''hash'' JNull)) (\<lambda>h. ret (truthy h)))
            (\<lambda>sent.
          if sent then
            and_then (lift (py_get result ''hash'' (JStr ''pending''))) (\<lambda>tx.
            and_then (record_result ''Faucet Drip'' True (''Tokens sent! TX: '' @ py_str tx)
                        (Some result)) (\<lambda>_.
            ret True))
          else
            and_then (record_result ''Faucet Drip'' False
                        (''Unexpected response: '' @ py_str result) None) (\<lambda>_.
            ret False))))) a)"

definition DEV_ACCOUNTS :: "(string \<times> string) list" where
  "DEV_ACCOUNTS =
     [(''Alice'', ''5GrwvaEF5zXb26Fz9rcQpDWS57CtERHpNehXCPcNoHGKutQY''),
      (''Bob'', ''5FHneW46xGXgs5mUiveU4sbTyGBzmstUspZC92UhjJM694ty''),
      (''Charlie'', ''5FLSigC9HGRKVhB9FiEo4Y3koPsNmBmLJbpXg2mp1hXcS59Y''),
      (''Dave'', ''5DAAnrj7VHTznn2AWBemMuyBwZWs6FNFjdyVXUeYum3PTXFy''),
      (''Eve'', ''5HGjWAeFDfFCWPsjFQdVV2Msvz2XtMktvgocEZcCj68kUMaw''),
      (''Ferdie'', ''5CiPPseXPECbkjWCa6MnjNokrgYjMqmKndv2rSnekmSK2DjL'')]"

record account =
  acc_name :: string
  acc_address :: string
  acc_type :: string

text \<open>\<^verbatim>\<open>secrets.choice(seq)\<close> is \<^verbatim>\<open>seq[randbelow(len(seq))]\<close>, the index below the
  length.\<close>

definition secrets_choice :: "env \<Rightarrow> 'a list \<Rightarrow> 'a" where
  "secrets_choice e xs = xs ! (randbelow e (length xs) mod length xs)"

definition generate_test_account :: "env \<Rightarrow> account action" where
  "generate_test_account e =
     (let test_names = [''Bob'', ''Charlie'', ''Dave'', ''Eve'', ''Ferdie''];
          nm = secrets_choice e test_names in
      and_then (lift (case map_of DEV_ACCOUNTS nm of None \<Rightarrow> Inl KeyError | Some x \<Rightarrow> Inr x))
        (\<lambda>address.
      and_then (record_result ''Account Selection'' True
                  (''Using '' @ nm @ '': '' @ take 20 address @ ''...'')
                  (Some (JObj [(''address'', JStr address), (''name'', JStr nm)]))) (\<lambda>_.
      ret \<lparr>acc_name = nm, acc_address = address, acc_type = ''dev''\<rparr>)))"

text \<open>The last two statements of \<^verbatim>\<open>test_account_balance\<close>, reached whenever the nested
  \<^verbatim>\<open>if\<close> does not return.\<close>

definition balance_zero :: "int action" where
  "balance_zero =
     and_then (record_result ''Account Balance'' True ''Balance: 0 (new account)''
                 (Some (JObj [(''balance'', JInt 0)]))) (\<lambda>_.
     ret 0)"

definition test_account_balance :: "env \<Rightarrow> string \<Rightarrow> int action" where
  "test_account_balance e address =
     and_then (rpc_call e ''system_account'' (Some [JStr address])) (\<lambda>result.
     and_then (lift (py_in ''result'' result)) (\<lambda>has.
     if has then
       and_then (lift (py_getitem result ''result'')) (\<lambda>data.
       and_then (if truthy data then lift (py_in ''data'' data) else ret False) (\<lambda>has_data.
       if has_data then
         and_then (lift (py_getitem data ''data'')) (\<lambda>inner.
         and_then (lift (py_get inner ''free'' (JInt 0))) (\<lambda>free_raw.
         and_then (lift (py_int free_raw)) (\<lambda>free.
         and_then (record_result ''Account Balance'' True
                     (''Balance: '' @ dec_int free @ '' units'')
                     (Some (JObj [(''balance'', JInt free)]))) (\<lambda>_.
         ret free))))
       else balance_zero))
     else balance_zero))"

text \<open>\<^verbatim>\<open>len(v) if isinstance(v, list) else 0\<close>\<close>

definition list_count :: "json \<Rightarrow> int action" where
  "list_count v = (if is_list v then lift (py_len v) else ret 0)"

definition test_qrng_config :: "env \<Rightarrow> json action" where
  "test_qrng_config e =
     and_then (rpc_call e ''qrng_getConfig'' None) (\<lambda>result.
     and_then (lift (py_in ''result'' result)) (\<lambda>has.
     if has then
       and_then (lift (py_getitem result ''result'')) (\<lambda>config.
       and_then (lift (py_get config ''threshold_k'' (JStr ''?''))) (\<lambda>k.
       and_then (lift (py_get config ''total_devices_m'' (JStr ''?''))) (\<lambda>m.
       and_then (record_result ''QRNG Config'' True
                   (''Threshold: '' @ py_str k @ ''-of-'' @ py_str m) (Some config)) (\<lambda>_.
       ret config))))
     else
       and_then (record_result ''QRNG Config'' False ''Failed to get config'' None) (\<lambda>_.
       ret (JObj []))))"

definition test_qrng_device_queues :: "env \<Rightarrow> json action" where
  "test_qrng_device_queues e =
     and_then (rpc_call e ''qrng_getDeviceQueues'' None) (\<lambda>result.
     and_then (lift (py_in ''result'' result)) (\<lambda>has.
     if has then
       and_then (lift (py_getitem result ''result'')) (\<lambda>queues.
       and_then (list_count queues) (\<lambda>queue_count.
       and_then (record_result ''QRNG Queues'' True
                   (dec_int queue_count @ '' device queues'') (Some queues)) (\<lambda>_.
       ret queues)))
     else
       and_then (record_result ''QRNG Queues'' False ''Failed to get device queues'' None) (\<lambda>_.
       ret (JObj []))))"

definition test_qrng_reconstruction :: "env \<Rightarrow> json action" where
  "test_qrng_reconstruction e =
     and_then (rpc_call e ''qrng_getReconstructionHistory'' (Some [JInt 10])) (\<lambda>result.
     and_then (lift (py_in ''result'' result)) (\<lambda>has.
     if has then
       and_then (lift (py_getitem result ''result'')) (\<lambda>history.
       and_then (list_count history) (\<lambda>count.
       and_then (record_result ''QRNG History'' True
                   (dec_int count @ '' reconstructions'')
                   (Some (JObj [(''count'', JInt count)]))) (\<lambda>_.
       ret history)))
     else
       and_then (record_result ''QRNG History'' False ''Failed to get history'' None) (\<lambda>_.
       ret (JList []))))"

definition alice :: string where
  "alice = ''5GrwvaEF5zXb26Fz9rcQpDWS57CtERHpNehXCPcNoHGKutQY''"

definition test_notarial_service :: "env \<Rightarrow> bool action" where
  "test_notarial_service e =
     and_then (rpc_call e ''notarial_getAttestationsByOwner'' (Some [JStr alice])) (\<lambda>result.
     and_then (lift (py_in ''result'' result)) (\<lambda>has.
     if has then
       and_then (lift (py_getitem result ''result'')) (\<lambda>raw.
       let attestations = py_or raw (JList []) in
       and_then (list_count attestations) (\<lambda>count.
       and_then (record_result ''Notarial Service'' True
                   (dec_int count @ '' attestations found'')
                   (Some (JObj [(''count'', JInt count)]))) (\<lambda>_.
       ret True)))
     else
       and_then (lift (py_in ''error'' result)) (\<lambda>has_error.
       if has_error then
         and_then (lift (py_getitem result ''error'')) (\<lambda>err.
         and_then (lift (py_get err ''code'' JNull)) (\<lambda>code.
         if py_eq_int code (- 32601) then
           and_then (record_result ''Notarial Service'' False ''Notarial RPC not available''
                       None) (\<lambda>_.
           ret False)
         else
           and_then (record_result ''Notarial Service'' True ''Notarial service responding''
                       (Some result)) (\<lambda>_.
           ret True)))
       else
         and_then (record_result ''Notarial Service'' False ''Unexpected response'' None) (\<lambda>_.
         ret False))))"

definition test_governance_stats :: "env \<Rightarrow> json action" where
  "test_governance_stats e =
     and_then (rpc_call e ''quantumharmony_getGovernanceStats'' None) (\<lambda>result.
     and_then (lift (py_in ''result'' result)) (\<lambda>has.
     if has then
       and_then (lift (py_getitem result ''result'')) (\<lambda>stats.
       and_then (record_result ''Governance Stats'' True ''Stats retrieved'' (Some stats)) (\<lambda>_.
       ret stats))
     else
       and_then (record_result ''Governance Stats'' False ''Failed to get governance stats''
                   None) (\<lambda>_.
       ret (JObj []))))"

definition test_proposals :: "env \<Rightarrow> json action" where
  "test_proposals e =
     and_then (rpc_call e ''quantumharmony_getProposals'' None) (\<lambda>result.
     and_then (lift (py_in ''result'' result)) (\<lambda>has.
     if has then
       and_then (lift (py_getitem result ''result'')) (\<lambda>raw.
       let proposals = py_or raw (JList []) in
       and_then (list_count proposals) (\<lambda>count.
       and_then (record_result ''Proposals'' True (dec_int count @ '' proposals'')
                   (Some (JObj [(''count'', JInt count)]))) (\<lambda>_.
       ret proposals)))
     else
       and_then (record_result ''Proposals'' False ''Failed to get proposals'' None) (\<lambda>_.
       ret (JList []))))"

definition test_validator_set :: "env \<Rightarrow> json action" where
  "test_validator_set e =
     and_then (rpc_call e ''quantumharmony_getValidatorSet'' None) (\<lambda>result.
     and_then (lift (py_in ''result'' result)) (\<lambda>has.
     if has then
       and_then (lift (py_getitem result ''result'')) (\<lambda>raw.
       let validators = py_or raw (JList []) in
       and_then (list_count validators) (\<lambda>count.
       and_then (record_result ''Validator Set'' True (dec_int count @ '' validators'')
                   (Some (JObj [(''count'', JInt count)]))) (\<lambda>_.
       ret validators)))
     else
       and_then (record_result ''Validator Set'' False ''Failed to get validator set'' None) (\<lambda>_.
       ret (JList []))))"

definition test_rewards_info :: "env \<Rightarrow> string option \<Rightarrow> json action" where
  "test_rewards_info e address_opt =
     (let address = (if py_not address_opt then alice else the address_opt) in
      and_then (rpc_call e ''quantumharmony_getRewardsInfo'' (Some [JStr address])) (\<lambda>result.
      and_then (lift (py_in ''result'' result)) (\<lambda>has.
      if has then
        and_then (lift (py_getitem result ''result'')) (\<lambda>rewards.
        and_then (lift (py_get rewards ''pending_rewards'' (JStr ''0''))) (\<lambda>pending.
        and_then (lift (py_get rewards ''reward_multiplier'' (JStr ''?''))) (\<lambda>multiplier.
        and_then (record_result ''Rewards Info'' True
                    (''Pending: '' @ py_str pending @ '', Multiplier: '' @ py_str multiplier)
                    (Some rewards)) (\<lambda>_.
        ret rewards))))
      else
        and_then (record_result ''Rewards Info'' False ''Failed to get rewards info'' None) (\<lambda>_.
        ret (JObj [])))))"

definition test_gateway_balance :: "env \<Rightarrow> string \<Rightarrow> json action" where
  "test_gateway_balance e address =
     and_then (rpc_call e ''gateway_balance'' (Some [JStr address])) (\<lambda>result.
     and_then (lift (py_in ''result'' result)) (\<lambda>has.
     if has then
       and_then (lift (py_getitem result ''result'')) (\<lambda>balance.
       and_then (record_result ''Gateway Balance'' True (''Balance: '' @ py_str balance)
                   (Some (JObj [(''balance'', balance)]))) (\<lambda>_.
       ret (if is_int balance then balance else JInt 0)))
     else
       and_then (record_result ''Gateway Balance'' False ''Failed to get balance'' None) (\<lambda>_.
       ret (JInt 0))))"

definition test_gateway_nonce :: "env \<Rightarrow> string \<Rightarrow> json action" where
  "test_gateway_nonce e address =
     and_then (rpc_call e ''gateway_nonce'' (Some [JStr address])) (\<lambda>result.
     and_then (lift (py_in ''result'' result)) (\<lambda>has.
     if has then
       and_then (lift (py_getitem result ''result'')) (\<lambda>nonce.
       and_then (record_result ''Gateway Nonce'' True (''Nonce: '' @ py_str nonce)
                   (Some (JObj [(''nonce'', nonce)]))) (\<lambda>_.
       ret (if is_int nonce then nonce else JInt 0)))
     else
       and_then (record_result ''Gateway Nonce'' False ''Failed to get nonce'' None) (\<lambda>_.
       ret (JInt 0))))"

section \<open>Reporter\<close>

text \<open>\<^verbatim>\<open>print_summary\<close> prints the counts, the failed tests and one table row for each of
  six services. What it prints is returned here as a value. A row is looked up with
  \<^verbatim>\<open>next((r for r in self.results if r.name == test_name), None)\<close>, which is \<open>find\<close>;
  a \<^verbatim>\<open>TestResult\<close> is always true in \<^verbatim>\<open>if result\<close>.\<close>

datatype status = ONLINE | OFFLINE | UNKNOWN

record summary =
  n_passed :: nat
  n_failed :: nat
  n_total :: nat
  failed_tests :: "(string \<times> string) list"
  service_rows :: "(string \<times> status) list"

definition services :: "(string \<times> string) list" where
  "services =
     [(''RPC Connection'', ''RPC''),
      (''Faucet Health'', ''Faucet''),
      (''QRNG Config'', ''QRNG''),
      (''Notarial Service'', ''Notarial''),
      (''Governance Stats'', ''Governance''),
      (''Validator Set'', ''Validators'')]"

definition service_status :: "TestResult list \<Rightarrow> string \<Rightarrow> status" where
  "service_status rs test_name =
     (case find (\<lambda>r. name r = test_name) rs of
        None \<Rightarrow> UNKNOWN
      | Some r \<Rightarrow> if passed r then ONLINE else OFFLINE)"

definition summary_of :: "TestResult list \<Rightarrow> summary" where
  "summary_of rs =
     (let failed = length (filter (\<lambda>r. \<not> passed r) rs) in
      \<lparr> n_passed = length (filter passed rs),
        n_failed = failed,
        n_total = length rs,
        failed_tests = (if failed > 0
                        then map (\<lambda>r. (name r, message r)) (filter (\<lambda>r. \<not> passed r) rs)
                        else []),
        service_rows = map (\<lambda>(test_name, display_name).
                              (display_name, service_status rs test_name)) services \<rparr>)"

definition print_summary :: "summary action" where
  "print_summary a = (Inr (summary_of (results a)), a)"

section \<open>Pipelines\<close>

text \<open>Both pipelines return nothing in Python. Here they return the report they print:
  \<open>None\<close> when the run was aborted before \<^verbatim>\<open>print_summary\<close>. \<^verbatim>\<open>time.sleep(2)\<close>
  between the drip and the second balance check changes nothing in the agent.\<close>

definition run_health_check :: "env \<Rightarrow> summary option action" where
  "run_health_check e =
     and_then (test_connection e) (\<lambda>connected.
     if \<not> connected then ret None
     else
       and_then (test_chain_info e) (\<lambda>_.
       and_then (test_peers e) (\<lambda>_.
       and_then (test_faucet_health e) (\<lambda>_.
       and_then (test_qrng_config e) (\<lambda>_.
       and_then (test_notarial_service e) (\<lambda>_.
       and_then (test_governance_stats e) (\<lambda>_.
       and_then (test_validator_set e) (\<lambda>_.
       and_then print_summary (\<lambda>s.
       ret (Some s))))))))))"

definition run_full_test :: "env \<Rightarrow> summary option action" where
  "run_full_test e =
     and_then (test_connection e) (\<lambda>connected.
     if \<not> connected then ret None
     else
       and_then (test_chain_info e) (\<lambda>_.
       and_then (test_peers e) (\<lambda>_.
       and_then (test_faucet_health e) (\<lambda>faucet_healthy.
       and_then (generate_test_account e) (\<lambda>acct.
       and_then (test_account_balance e (acc_address acct)) (\<lambda>_.
       and_then (if faucet_healthy then
                   and_then (test_faucet_drip e (acc_address acct)) (\<lambda>_.
                   and_then (test_account_balance e (acc_address acct)) (\<lambda>_.
                   ret ()))
                 else ret ()) (\<lambda>_.
       and_then (test_gateway_balance e alice) (\<lambda>_.
       and_then (test_gateway_nonce e alice) (\<lambda>_.
       and_then (test_qrng_config e) (\<lambda>_.
       and_then (test_qrng_device_queues e) (\<lambda>_.
       and_then (test_qrng_reconstruction e) (\<lambda>_.
       and_then (test_notarial_service e) (\<lambda>_.
       and_then (test_governance_stats e) (\<lambda>_.
       and_then (test_proposals e) (\<lambda>_.
       and_then (test_validator_set e) (\<lambda>_.
       and_then (test_rewards_info e None) (\<lambda>_.
       and_then print_summary (\<lambda>s.
       ret (Some s)))))))))))))))))))"

section \<open>The randomness simulator\<close>


record stats =
  requests :: int
  bytes_generated :: int




section \<open>Notions used in the statements\<close>

text \<open>The request that the next \<^verbatim>\<open>rpc_call\<close> of agent \<open>a\<close> sends, the response it gets,
  and the agent afterwards.\<close>

definition rpc_request :: "NodeAgent \<Rightarrow> string \<Rightarrow> json list option \<Rightarrow> request" where
  "rpc_request a method params = POST (node_url a) (rpc_envelope (rpc_id a + 1) method params)"

definition rpc_response :: "env \<Rightarrow> NodeAgent \<Rightarrow> string \<Rightarrow> json list option \<Rightarrow> json" where
  "rpc_response e a method params =
     make_request_result (http e (length (wire a)) (rpc_request a method params))"

definition rpc_sent :: "NodeAgent \<Rightarrow> string \<Rightarrow> json list option \<Rightarrow> NodeAgent" where
  "rpc_sent a method params =
     a\<lparr>rpc_id := rpc_id a + 1, wire := wire a @ [rpc_request a method params]\<rparr>"

text \<open>The agent after one more result was recorded.\<close>

definition recorded :: "NodeAgent \<Rightarrow> TestResult \<Rightarrow> NodeAgent" where
  "recorded a r = a\<lparr>results := results a @ [r]\<rparr>"

text \<open>The agent after a request of \<^verbatim>\<open>faucet_call\<close> was sent.\<close>

definition faucet_sent :: "NodeAgent \<Rightarrow> request \<Rightarrow> NodeAgent" where
  "faucet_sent a r = a\<lparr>wire := wire a @ [r]\<rparr>"

text \<open>The result log reduced to probe names and verdicts.\<close>

definition tag :: "TestResult \<Rightarrow> string \<times> bool" where
  "tag r = (name r, passed r)"

definition log_of :: "NodeAgent \<Rightarrow> (string \<times> bool) list" where
  "log_of a = map tag (results a)"


text \<open>What can be read off the requests sent: the JSON-RPC calls (method and parameters),
  the envelope ids and the URLs the envelopes went to. A request is an envelope when its
  payload has the \<^verbatim>\<open>jsonrpc\<close> key; the faucet's \<^verbatim>\<open>GET\<close> and \<^verbatim>\<open>POST\<close> are not.\<close>

fun call_of :: "request \<Rightarrow> (string \<times> json) option" where
  "call_of (POST u (JObj kvs)) =
     (case (map_of kvs ''jsonrpc'', map_of kvs ''method'', map_of kvs ''params'') of
        (Some v, Some (JStr m), Some ps) \<Rightarrow> Some (m, ps)
      | _ \<Rightarrow> None)"
| "call_of r = None"

definition rpc_calls :: "request list \<Rightarrow> (string \<times> json) list" where
  "rpc_calls w = List.map_filter call_of w"

fun is_envelope :: "request \<Rightarrow> bool" where
  "is_envelope (POST u (JObj kvs)) = (map_of kvs ''jsonrpc'' \<noteq> None)"
| "is_envelope r = False"

fun envelope_id :: "request \<Rightarrow> json" where
  "envelope_id (POST u (JObj kvs)) = (case map_of kvs ''id'' of None \<Rightarrow> JNull | Some i \<Rightarrow> i)"
| "envelope_id r = JNull"

fun url_of :: "request \<Rightarrow> string" where
  "url_of (POST u p) = u"
| "url_of (GET u) = u"

definition rpc_ids :: "request list \<Rightarrow> json list" where
  "rpc_ids w = map envelope_id (filter is_envelope w)"

definition rpc_urls :: "request list \<Rightarrow> string list" where
  "rpc_urls w = map url_of (filter is_envelope w)"

text \<open>\<open>extends a a'\<close>: agent \<open>a'\<close> is \<open>a\<close> after some more work. The URLs are
  the same, the log and the wire only grew, and the envelopes sent in between carry the
  ids \<open>rpc_id a + 1\<close> up to \<open>rpc_id a'\<close> in this order and went to the node URL.
  An action is \<open>steady\<close> when it extends every agent, whether it returns or raises.\<close>

definition extends :: "NodeAgent \<Rightarrow> NodeAgent \<Rightarrow> bool" where
  "extends a a' \<longleftrightarrow>
     node_url a' = node_url a \<and> faucet_url a' = faucet_url a \<and> rpc_id a \<le> rpc_id a'
     \<and> (\<exists>rs. results a' = results a @ rs)
     \<and> (\<exists>new. wire a' = wire a @ new
           \<and> rpc_ids new = map JInt [rpc_id a + 1 .. rpc_id a']
           \<and> set (rpc_urls new) \<subseteq> {node_url a})"

definition steady :: "'a action \<Rightarrow> bool" where
  "steady m \<longleftrightarrow> (\<forall>a. extends a (snd (m a)))"


text \<open>\<open>on_return m Q a\<close>: if \<open>m\<close> returns from \<open>a\<close>, then \<open>Q\<close> holds of the value
  returned and the agent left.\<close>

definition on_return :: "'a action \<Rightarrow> ('a \<Rightarrow> NodeAgent \<Rightarrow> bool) \<Rightarrow> NodeAgent \<Rightarrow> bool" where
  "on_return m Q a = (case m a of (Inr v, a') \<Rightarrow> Q v a' | (Inl x, a') \<Rightarrow> True)"

text \<open>An action is pure when it leaves the agent alone: it only evaluates built-ins.\<close>

definition pure_action :: "'a action \<Rightarrow> bool" where
  "pure_action m \<longleftrightarrow> (\<exists>r. m = lift r)"

section \<open>Concrete logs and environments for the examples\<close>

text \<open>The log of an agent whose first run could not connect and whose second run could.\<close>

definition log_two_connections :: "TestResult list" where
  "log_two_connections =
     [\<lparr>name = ''RPC Connection'', passed = False, message = ''Failed: timed out'', details = None\<rparr>,
      \<lparr>name = ''RPC Connection'', passed = True,
       message = ''Connected - 3 peers, syncing=False'',
       details = Some (JObj [(''peers'', JInt 3), (''isSyncing'', JBool False)])\<rparr>]"

text \<open>The lookup as the specification words it: the most recently recorded entry with the
  name decides the row.\<close>

definition spec_most_recent_status :: "TestResult list \<Rightarrow> string \<Rightarrow> status" where
  "spec_most_recent_status rs test_name =
     (case find (\<lambda>r. name r = test_name) (rev rs) of
        None \<Rightarrow> UNKNOWN
      | Some r \<Rightarrow> if passed r then ONLINE else OFFLINE)"

text \<open>A node that answers every call with "method not found".\<close>

definition env_notfound :: env where
  "env_notfound =
     \<lparr>http = (\<lambda>n r. Body (JObj [(''error'', JObj [(''code'', JInt (- 32601)),
                                                  (''message'', JStr ''Method not found'')])])),
      randbelow = (\<lambda>n. 0)\<rparr>"

text \<open>A node that answers every call with an empty list as its result, and a node that
  refuses the connection.\<close>

definition env_empty_list :: env where
  "env_empty_list =
     \<lparr>http = (\<lambda>n r. Body (JObj [(''result'', JList [])])), randbelow = (\<lambda>n. 0)\<rparr>"

definition env_refused :: env where
  "env_refused =
     \<lparr>http = (\<lambda>n r. URLError ''[Errno 111] Connection refused''), randbelow = (\<lambda>n. 0)\<rparr>"

text \<open>An agent as \<^verbatim>\<open>main\<close> builds it for a local node given by a websocket URL.\<close>

definition agent0 :: NodeAgent where
  "agent0 = NodeAgent_init ''ws://localhost:9944'' (Some ''http://localhost:3000'')"



text \<open>A faucet that answers with an error given as a plain string, and a faucet behind a
  gateway that answers 502.\<close>

definition env_error_string :: env where
  "env_error_string =
     \<lparr>http = (\<lambda>n r. Body (JObj [(''error'', JStr ''Bad Gateway'')])), randbelow = (\<lambda>n. 0)\<rparr>"

definition env_bad_gateway :: env where
  "env_bad_gateway = \<lparr>http = (\<lambda>n r. HTTPError 502 ''Bad Gateway''), randbelow = (\<lambda>n. 0)\<rparr>"



text \<open>A node that answers \<^verbatim>\<open>system_account\<close> with a given response and every other call
  with an empty object as result, next to a faucet that reports \<^verbatim>\<open>{"status": "ok"}\<close> on
  \<^verbatim>\<open>GET\<close>; \<^verbatim>\<open>secrets.choice\<close> draws the first name, Bob. In \<open>env_null_balance\<close> the account is
  unknown to the node; in \<open>env_hex_balance\<close> the node reports the free balance as a
  hexadecimal string.\<close>

definition env_with_balance :: "json \<Rightarrow> env" where
  "env_with_balance bal =
     \<lparr>http = (\<lambda>n r. case r of
                 GET u \<Rightarrow> Body (JObj [(''status'', JStr ''ok'')])
               | POST u p \<Rightarrow>
                   if py_get p ''method'' JNull = Inr (JStr ''system_account'')
                   then Body bal
                   else Body (JObj [(''result'', JObj [])])),
      randbelow = (\<lambda>n. 0)\<rparr>"

definition bob :: string where
  "bob = ''5FHneW46xGXgs5mUiveU4sbTyGBzmstUspZC92UhjJM694ty''"


definition env_null_balance :: env where
  "env_null_balance = env_with_balance (JObj [(''result'', JNull)])"

definition env_hex_balance :: env where
  "env_hex_balance =
     env_with_balance (JObj [(''result'', JObj [(''data'', JObj [(''free'', JStr ''0x10'')])])])"

text \<open>An agent built without a faucet URL.\<close>

definition agent_no_faucet :: NodeAgent where
  "agent_no_faucet = NodeAgent_init ''http://localhost:9944'' None"

section \<open>Basic facts about actions\<close>

lemma py_str_JStr [simp]: "py_str (JStr s) = s"
  by (simp add: py_str_def)

lemma and_then_Inr_iff:
  "and_then m f a = (Inr v, a') \<longleftrightarrow> (\<exists>x b. m a = (Inr x, b) \<and> f x b = (Inr v, a'))"
  by (auto simp: and_then_def split: prod.splits sum.splits)

lemma and_then_step: "m a = (Inr x, b) \<Longrightarrow> and_then m f a = f x b"
  by (simp add: and_then_def)

lemma and_then_raise: "m a = (Inl x, b) \<Longrightarrow> and_then m f a = (Inl x, b)"
  by (simp add: and_then_def)

lemma lift_eq: "lift r a = (r, a)"
  by (simp add: lift_def)

lemma ret_eq: "ret v a = (Inr v, a)"
  by (simp add: ret_def)

lemma rpc_call_eq: "rpc_call e m ps a = (Inr (rpc_response e a m ps), rpc_sent a m ps)"
  by (simp add: rpc_call_def and_then_def next_id_def make_request_def rpc_response_def
      rpc_sent_def rpc_request_def)

lemma record_result_eq:
  "record_result nm ok msg det a =
     (Inr (), recorded a \<lparr>name = nm, passed = ok, message = msg, details = det\<rparr>)"
  by (simp add: record_result_def recorded_def)

lemma and_then_lift_Inr: "and_then (lift (Inr v)) f = f v"
  by (simp add: and_then_def lift_def fun_eq_iff)

lemma and_then_lift_Inl: "and_then (lift (Inl x)) f a = (Inl x, a)"
  by (simp add: and_then_def lift_def)

lemma and_then_ret: "and_then (ret v) f = f v"
  by (simp add: and_then_def ret_def fun_eq_iff)

lemma and_then_rpc_call:
  "and_then (rpc_call e m ps) f a = f (rpc_response e a m ps) (rpc_sent a m ps)"
  by (simp add: and_then_def rpc_call_eq)

lemma and_then_record_result:
  "and_then (record_result nm ok msg det) f a =
     f () (recorded a \<lparr>name = nm, passed = ok, message = msg, details = det\<rparr>)"
  by (simp add: and_then_def record_result_eq)

lemma and_then_Pair_Inr: "and_then (Pair (Inr v)) f = f v"
  by (simp add: and_then_def fun_eq_iff)

lemma and_then_Pair_Inl: "and_then (Pair (Inl x)) f a = (Inl x, a)"
  by (simp add: and_then_def)

lemmas step_simps =
  and_then_lift_Inr and_then_lift_Inl and_then_ret and_then_rpc_call and_then_record_result
  and_then_Pair_Inr and_then_Pair_Inl lift_eq ret_eq rpc_call_eq record_result_eq

lemma recorded_simps [simp]:
  "results (recorded a r) = results a @ [r]"
  "wire (recorded a r) = wire a"
  "rpc_id (recorded a r) = rpc_id a"
  "node_url (recorded a r) = node_url a"
  "faucet_url (recorded a r) = faucet_url a"
  "log_of (recorded a r) = log_of a @ [(name r, passed r)]"
  by (simp_all add: recorded_def log_of_def tag_def)

lemma rpc_sent_simps [simp]:
  "results (rpc_sent a m ps) = results a"
  "wire (rpc_sent a m ps) = wire a @ [rpc_request a m ps]"
  "rpc_id (rpc_sent a m ps) = rpc_id a + 1"
  "node_url (rpc_sent a m ps) = node_url a"
  "faucet_url (rpc_sent a m ps) = faucet_url a"
  "log_of (rpc_sent a m ps) = log_of a"
  by (simp_all add: rpc_sent_def log_of_def)

lemma init_simps [simp]:
  "results (NodeAgent_init n f) = []"
  "wire (NodeAgent_init n f) = []"
  "rpc_id (NodeAgent_init n f) = 0"
  "faucet_url (NodeAgent_init n f) = f"
  "log_of (NodeAgent_init n f) = []"
  by (simp_all add: NodeAgent_init_def log_of_def)

lemma list_count_total: "\<exists>n. list_count v = ret n"
  by (cases v) (simp_all add: list_count_def lift_def ret_def fun_eq_iff)

subsection \<open>Every probe and both pipelines are steady\<close>

lemma extends_refl: "extends a a"
  by (simp add: extends_def rpc_ids_def rpc_urls_def)

lemma extends_trans:
  assumes "extends a b" "extends b c"
  shows "extends a c"
proof -
  from assms obtain n1 n2 where
    n1: "wire b = wire a @ n1" "rpc_ids n1 = map JInt [rpc_id a + 1 .. rpc_id b]"
      "set (rpc_urls n1) \<subseteq> {node_url a}"
    and n2: "wire c = wire b @ n2" "rpc_ids n2 = map JInt [rpc_id b + 1 .. rpc_id c]"
      "set (rpc_urls n2) \<subseteq> {node_url b}"
    unfolding extends_def by blast
  from assms have le: "rpc_id a \<le> rpc_id b" "rpc_id b \<le> rpc_id c"
    and u: "node_url b = node_url a" "node_url c = node_url b"
      "faucet_url b = faucet_url a" "faucet_url c = faucet_url b"
    unfolding extends_def by blast+
  from assms obtain r1 r2 where r: "results b = results a @ r1" "results c = results b @ r2"
    unfolding extends_def by blast
  have "[rpc_id a + 1 .. rpc_id c] = [rpc_id a + 1 .. rpc_id b] @ [rpc_id b + 1 .. rpc_id c]"
    using le upto_split2 [of "rpc_id a + 1" "rpc_id b" "rpc_id c"]
    by (cases "rpc_id a = rpc_id b") auto
  then have ids: "rpc_ids (n1 @ n2) = map JInt [rpc_id a + 1 .. rpc_id c]"
    using n1(2) n2(2) by (simp add: rpc_ids_def)
  have urls: "set (rpc_urls (n1 @ n2)) \<subseteq> {node_url a}"
    using n1(3) n2(3) u by (auto simp: rpc_urls_def)
  have "wire c = wire a @ (n1 @ n2)" using n1(1) n2(1) by simp
  with ids urls le u r show ?thesis
    unfolding extends_def by (intro conjI exI [of _ "n1 @ n2"] exI [of _ "r1 @ r2"]) auto
qed

lemma steady_and_then: "steady m \<Longrightarrow> (\<And>v. steady (f v)) \<Longrightarrow> steady (and_then m f)"
  unfolding steady_def
proof
  fix a
  assume m: "\<forall>a. extends a (snd (m a))" and f: "\<And>v. \<forall>a. extends a (snd (f v a))"
  obtain r b where mb: "m a = (r, b)" by (cases "m a")
  with m have ab: "extends a b" by (metis snd_conv)
  show "extends a (snd (and_then m f a))"
  proof (cases r)
    case (Inl x)
    with mb ab show ?thesis by (simp add: and_then_def)
  next
    case (Inr v)
    with mb have "and_then m f a = f v b" by (simp add: and_then_def)
    with f [of v] ab show ?thesis by (metis extends_trans)
  qed
qed

lemma steady_lift: "steady (lift r)"
  by (simp add: steady_def lift_def extends_refl)

lemma steady_ret: "steady (ret v)"
  by (simp add: steady_def ret_def extends_refl)

lemma steady_list_count: "steady (list_count v)"
  by (simp add: list_count_def steady_lift steady_ret)

lemma steady_if: "steady m1 \<Longrightarrow> steady m2 \<Longrightarrow> steady (if c then m1 else m2)"
  by simp

lemma steady_state_if:
  "steady m1 \<Longrightarrow> steady m2 \<Longrightarrow> steady (\<lambda>a. if P a then m1 a else m2 a)"
  by (simp add: steady_def)

lemma steady_rpc_call: "steady (rpc_call e m ps)"
  by (auto simp: steady_def rpc_call_eq extends_def rpc_ids_def rpc_urls_def rpc_request_def
      rpc_envelope_def)

lemma steady_record_result: "steady (record_result nm ok msg det)"
  by (simp add: steady_def record_result_eq extends_def rpc_ids_def rpc_urls_def)

lemma steady_faucet_get: "steady (faucet_call e ep ''GET'' None)"
  by (auto simp: steady_def faucet_call_def extends_def rpc_ids_def rpc_urls_def Let_def)

lemma steady_faucet_post:
  "steady (faucet_call e ep ''POST'' (Some (JObj [(''address'', x)])))"
  by (auto simp: steady_def faucet_call_def make_request_def py_or_def extends_def rpc_ids_def
      rpc_urls_def Let_def)

lemma steady_print_summary: "steady print_summary"
  by (simp add: steady_def print_summary_def extends_refl)

lemmas steady_intros = steady_and_then steady_lift steady_ret steady_list_count steady_if
  steady_state_if steady_rpc_call steady_record_result steady_faucet_get steady_faucet_post
  steady_print_summary

lemma steady_test_connection: "steady (test_connection e)"
  unfolding test_connection_def by (intro steady_intros)

lemma steady_test_chain_info: "steady (test_chain_info e)"
  unfolding test_chain_info_def Let_def by (intro steady_intros)

lemma steady_test_peers: "steady (test_peers e)"
  unfolding test_peers_def by (intro steady_intros)

lemma steady_test_faucet_health: "steady (test_faucet_health e)"
  unfolding test_faucet_health_def by (intro steady_intros)

lemma steady_test_faucet_drip: "steady (test_faucet_drip e addr)"
  unfolding test_faucet_drip_def by (intro steady_intros)

lemma steady_generate_test_account: "steady (generate_test_account e)"
  unfolding generate_test_account_def Let_def by (intro steady_intros)

lemma steady_test_account_balance: "steady (test_account_balance e addr)"
  unfolding test_account_balance_def balance_zero_def by (intro steady_intros)

lemma steady_test_qrng_config: "steady (test_qrng_config e)"
  unfolding test_qrng_config_def by (intro steady_intros)

lemma steady_test_qrng_device_queues: "steady (test_qrng_device_queues e)"
  unfolding test_qrng_device_queues_def by (intro steady_intros)

lemma steady_test_qrng_reconstruction: "steady (test_qrng_reconstruction e)"
  unfolding test_qrng_reconstruction_def by (intro steady_intros)

lemma steady_test_notarial_service: "steady (test_notarial_service e)"
  unfolding test_notarial_service_def Let_def by (intro steady_intros)

lemma steady_test_governance_stats: "steady (test_governance_stats e)"
  unfolding test_governance_stats_def by (intro steady_intros)

lemma steady_test_proposals: "steady (test_proposals e)"
  unfolding test_proposals_def Let_def by (intro steady_intros)

lemma steady_test_validator_set: "steady (test_validator_set e)"
  unfolding test_validator_set_def Let_def by (intro steady_intros)

lemma steady_test_rewards_info: "steady (test_rewards_info e addr)"
  unfolding test_rewards_info_def Let_def by (intro steady_intros)

lemma steady_test_gateway_balance: "steady (test_gateway_balance e addr)"
  unfolding test_gateway_balance_def by (intro steady_intros)

lemma steady_test_gateway_nonce: "steady (test_gateway_nonce e addr)"
  unfolding test_gateway_nonce_def by (intro steady_intros)

lemmas steady_probes = steady_test_connection steady_test_chain_info steady_test_peers
  steady_test_faucet_health steady_test_faucet_drip steady_generate_test_account
  steady_test_account_balance steady_test_qrng_config steady_test_qrng_device_queues
  steady_test_qrng_reconstruction steady_test_notarial_service steady_test_governance_stats
  steady_test_proposals steady_test_validator_set steady_test_rewards_info
  steady_test_gateway_balance steady_test_gateway_nonce

lemma steady_run_health_check: "steady (run_health_check e)"
  unfolding run_health_check_def by (intro steady_intros steady_probes)

lemma steady_run_full_test: "steady (run_full_test e)"
  unfolding run_full_test_def by (intro steady_intros steady_probes)


subsection \<open>What a probe that returns has recorded and sent\<close>

lemma rpc_calls_simps [simp]:
  "rpc_calls [] = []"
  "rpc_calls (w @ v) = rpc_calls w @ rpc_calls v"
  "rpc_calls (rpc_request a m ps # w) =
     (m, JList (case ps of None \<Rightarrow> [] | Some xs \<Rightarrow> xs)) # rpc_calls w"
  "rpc_calls (GET u # w) = rpc_calls w"
  "rpc_calls (POST u (JObj [(''address'', x)]) # w) = rpc_calls w"
  by (simp_all add: rpc_calls_def map_filter_def rpc_request_def rpc_envelope_def)

lemma on_return_and_then:
  "on_return (and_then m f) Q a = on_return m (\<lambda>v. on_return (f v) Q) a"
  by (simp add: on_return_def and_then_def split: prod.splits sum.splits)

lemma on_return_lift: "on_return (lift r) Q a = (case r of Inr v \<Rightarrow> Q v a | Inl x \<Rightarrow> True)"
  by (simp add: on_return_def lift_def split: sum.splits)

lemma on_return_ret: "on_return (ret v) Q a = Q v a"
  by (simp add: on_return_def ret_def)

lemma on_return_rpc_call:
  "on_return (rpc_call e m ps) Q a = Q (rpc_response e a m ps) (rpc_sent a m ps)"
  by (simp add: on_return_def rpc_call_eq)

lemma on_return_record_result:
  "on_return (record_result nm ok msg det) Q a =
     Q () (recorded a \<lparr>name = nm, passed = ok, message = msg, details = det\<rparr>)"
  by (simp add: on_return_def record_result_eq)

lemma list_count_eq: "list_count x = ret (case x of JList xs \<Rightarrow> int (length xs) | _ \<Rightarrow> 0)"
  by (cases x) (simp_all add: list_count_def lift_def ret_def fun_eq_iff)

lemma on_return_list_count:
  "on_return (list_count x) Q a = Q (case x of JList xs \<Rightarrow> int (length xs) | _ \<Rightarrow> 0) a"
  by (simp add: list_count_eq on_return_ret)

lemma on_return_state_if:
  "on_return (\<lambda>a. if P a then m1 a else m2 a) Q a =
     (if P a then on_return m1 Q a else on_return m2 Q a)"
  by (simp add: on_return_def)

lemma on_return_if:
  "on_return (if c then m1 else m2) Q a = (if c then on_return m1 Q a else on_return m2 Q a)"
  by simp

lemma on_returnD: "on_return m Q a \<Longrightarrow> m a = (Inr v, a') \<Longrightarrow> Q v a'"
  by (simp add: on_return_def)

lemmas on_return_simps = on_return_and_then on_return_lift on_return_ret on_return_rpc_call
  on_return_record_result on_return_if on_return_list_count on_return_state_if

lemma on_return_lift_all: "on_return (lift r) Q a = (\<forall>v. r = Inr v \<longrightarrow> Q v a)"
  by (cases r) (simp_all add: on_return_def lift_def)

lemma pure_lift: "pure_action (lift r)"
  by (auto simp: pure_action_def)

lemma pure_ret: "pure_action (ret v)"
  by (auto simp: pure_action_def ret_def lift_def fun_eq_iff intro: exI [of _ "Inr v"])

lemma pure_if: "pure_action m1 \<Longrightarrow> pure_action m2 \<Longrightarrow> pure_action (if c then m1 else m2)"
  by simp

lemma pure_and_then:
  assumes "pure_action m" "\<And>v. pure_action (f v)"
  shows "pure_action (and_then m f)"
proof -
  from assms(1) obtain r where m: "m = lift r" by (auto simp: pure_action_def)
  show ?thesis
  proof (cases r)
    case (Inl x)
    with m have "and_then m f = lift (Inl x)"
      by (simp add: and_then_def lift_def fun_eq_iff)
    then show ?thesis by (auto simp: pure_action_def)
  next
    case (Inr v)
    with m have "and_then m f = f v"
      by (simp add: and_then_def lift_def fun_eq_iff)
    with assms(2) show ?thesis by simp
  qed
qed

lemma on_return_pure:
  "pure_action m \<Longrightarrow> on_return (and_then m f) Q a = (\<forall>v. m a = (Inr v, a) \<longrightarrow> on_return (f v) Q a)"
  by (auto simp: pure_action_def on_return_def and_then_def lift_def split: sum.splits)

lemmas pure_intros = pure_lift pure_ret pure_if pure_and_then

lemma ex_flag [simp]: "\<exists>p. p" "\<exists>p. \<not> p"
  by blast+

lemma faucet_sent_simps [simp]:
  "results (faucet_sent a r) = results a"
  "wire (faucet_sent a r) = wire a @ [r]"
  "rpc_id (faucet_sent a r) = rpc_id a"
  "node_url (faucet_sent a r) = node_url a"
  "faucet_url (faucet_sent a r) = faucet_url a"
  "log_of (faucet_sent a r) = log_of a"
  by (simp_all add: faucet_sent_def log_of_def)

lemma faucet_get_eq:
  "\<not> py_not (faucet_url a) \<Longrightarrow>
   faucet_call e ep ''GET'' None a =
     (Inr (faucet_get_result (http e (length (wire a)) (GET (the (faucet_url a) @ ep)))),
      faucet_sent a (GET (the (faucet_url a) @ ep)))"
  by (simp add: faucet_call_def faucet_sent_def Let_def)

lemma faucet_post_eq:
  "\<not> py_not (faucet_url a) \<Longrightarrow>
   faucet_call e ep ''POST'' (Some (JObj [(''address'', x)])) a =
     (Inr (make_request_result (http e (length (wire a))
             (POST (the (faucet_url a) @ ep) (JObj [(''address'', x)])))),
      faucet_sent a (POST (the (faucet_url a) @ ep) (JObj [(''address'', x)])))"
  by (simp add: faucet_call_def faucet_sent_def make_request_def py_or_def Let_def)

lemma on_return_faucet_get:
  "\<not> py_not (faucet_url a) \<Longrightarrow>
   on_return (faucet_call e ep ''GET'' None) Q a =
     Q (faucet_get_result (http e (length (wire a)) (GET (the (faucet_url a) @ ep))))
       (faucet_sent a (GET (the (faucet_url a) @ ep)))"
  by (simp add: on_return_def faucet_get_eq)

lemma on_return_faucet_post:
  "\<not> py_not (faucet_url a) \<Longrightarrow>
   on_return (faucet_call e ep ''POST'' (Some (JObj [(''address'', x)]))) Q a =
     Q (make_request_result (http e (length (wire a))
             (POST (the (faucet_url a) @ ep) (JObj [(''address'', x)]))))
       (faucet_sent a (POST (the (faucet_url a) @ ep) (JObj [(''address'', x)])))"
  by (simp add: on_return_def faucet_post_eq)

lemma test_connection_effect:
  "on_return (test_connection e) (\<lambda>b a'.
     log_of a' = log_of a @ [(''RPC Connection'', b)]
     \<and> rpc_calls (wire a') = rpc_calls (wire a) @ [(''system_health'', JList [])]) a"
  by (simp add: test_connection_def on_return_simps split: sum.splits)

lemma test_chain_info_effect:
  "on_return (test_chain_info e) (\<lambda>b a'.
     log_of a' = log_of a @ [(''Chain Info'', True)]
     \<and> rpc_calls (wire a') = rpc_calls (wire a) @
         [(''system_chain'', JList []), (''chain_getHeader'', JList []),
          (''state_getRuntimeVersion'', JList []), (''system_name'', JList [])]) a"
  unfolding test_chain_info_def Let_def
  by (simp add: on_return_pure pure_intros on_return_and_then on_return_rpc_call on_return_record_result on_return_ret on_return_lift_all lift_def ret_def)

lemma test_peers_effect:
  "on_return (test_peers e) (\<lambda>b a'.
     (\<exists>p. log_of a' = log_of a @ [(''Peer Connections'', p)])
     \<and> rpc_calls (wire a') = rpc_calls (wire a) @ [(''system_peers'', JList [])]) a"
  by (simp add: test_peers_def on_return_simps split: sum.splits)

lemma test_faucet_health_effect:
  "on_return (test_faucet_health e) (\<lambda>b a'.
     log_of a' = log_of a @ [(''Faucet Health'', b)]
     \<and> rpc_calls (wire a') = rpc_calls (wire a)) a"
  unfolding test_faucet_health_def
  by (simp add: on_return_simps on_return_faucet_get split: sum.splits)

lemma test_faucet_drip_effect:
  "on_return (test_faucet_drip e addr) (\<lambda>b a'.
     log_of a' = log_of a @ [(''Faucet Drip'', b)]
     \<and> rpc_calls (wire a') = rpc_calls (wire a)) a"
  unfolding test_faucet_drip_def
  by (simp add: on_return_simps on_return_faucet_post split: sum.splits)

lemma generate_test_account_effect:
  "on_return (generate_test_account e) (\<lambda>b a'.
     log_of a' = log_of a @ [(''Account Selection'', True)]
     \<and> rpc_calls (wire a') = rpc_calls (wire a)) a"
  by (simp add: generate_test_account_def on_return_simps Let_def split: sum.splits option.splits)

lemma test_account_balance_effect:
  "on_return (test_account_balance e addr) (\<lambda>b a'.
     log_of a' = log_of a @ [(''Account Balance'', True)]
     \<and> rpc_calls (wire a') = rpc_calls (wire a) @ [(''system_account'', JList [JStr addr])]) a"
  by (simp add: test_account_balance_def balance_zero_def on_return_simps split: sum.splits)

lemma test_qrng_config_effect:
  "on_return (test_qrng_config e) (\<lambda>b a'.
     (\<exists>p. log_of a' = log_of a @ [(''QRNG Config'', p)])
     \<and> rpc_calls (wire a') = rpc_calls (wire a) @ [(''qrng_getConfig'', JList [])]) a"
  by (simp add: test_qrng_config_def on_return_simps split: sum.splits)

lemma test_qrng_device_queues_effect:
  "on_return (test_qrng_device_queues e) (\<lambda>b a'.
     (\<exists>p. log_of a' = log_of a @ [(''QRNG Queues'', p)])
     \<and> rpc_calls (wire a') = rpc_calls (wire a) @ [(''qrng_getDeviceQueues'', JList [])]) a"
  by (simp add: test_qrng_device_queues_def on_return_simps split: sum.splits)

lemma test_qrng_reconstruction_effect:
  "on_return (test_qrng_reconstruction e) (\<lambda>b a'.
     (\<exists>p. log_of a' = log_of a @ [(''QRNG History'', p)])
     \<and> rpc_calls (wire a') = rpc_calls (wire a)
          @ [(''qrng_getReconstructionHistory'', JList [JInt 10])]) a"
  by (simp add: test_qrng_reconstruction_def on_return_simps split: sum.splits)

lemma test_notarial_service_effect:
  "on_return (test_notarial_service e) (\<lambda>b a'.
     log_of a' = log_of a @ [(''Notarial Service'', b)]
     \<and> rpc_calls (wire a') = rpc_calls (wire a)
          @ [(''notarial_getAttestationsByOwner'', JList [JStr alice])]) a"
  by (simp add: test_notarial_service_def on_return_simps Let_def split: sum.splits)

lemma test_governance_stats_effect:
  "on_return (test_governance_stats e) (\<lambda>b a'.
     (\<exists>p. log_of a' = log_of a @ [(''Governance Stats'', p)])
     \<and> rpc_calls (wire a') = rpc_calls (wire a)
          @ [(''quantumharmony_getGovernanceStats'', JList [])]) a"
  by (simp add: test_governance_stats_def on_return_simps split: sum.splits)

lemma test_proposals_effect:
  "on_return (test_proposals e) (\<lambda>b a'.
     (\<exists>p. log_of a' = log_of a @ [(''Proposals'', p)])
     \<and> rpc_calls (wire a') = rpc_calls (wire a) @ [(''quantumharmony_getProposals'', JList [])]) a"
  by (simp add: test_proposals_def on_return_simps Let_def split: sum.splits)

lemma test_validator_set_effect:
  "on_return (test_validator_set e) (\<lambda>b a'.
     (\<exists>p. log_of a' = log_of a @ [(''Validator Set'', p)])
     \<and> rpc_calls (wire a') = rpc_calls (wire a)
          @ [(''quantumharmony_getValidatorSet'', JList [])]) a"
  by (simp add: test_validator_set_def on_return_simps Let_def split: sum.splits)

lemma test_rewards_info_effect:
  "on_return (test_rewards_info e None) (\<lambda>b a'.
     (\<exists>p. log_of a' = log_of a @ [(''Rewards Info'', p)])
     \<and> rpc_calls (wire a') = rpc_calls (wire a)
          @ [(''quantumharmony_getRewardsInfo'', JList [JStr alice])]) a"
  by (simp add: test_rewards_info_def py_not_def on_return_simps Let_def split: sum.splits)

lemma test_gateway_balance_effect:
  "on_return (test_gateway_balance e addr) (\<lambda>b a'.
     (\<exists>p. log_of a' = log_of a @ [(''Gateway Balance'', p)])
     \<and> rpc_calls (wire a') = rpc_calls (wire a) @ [(''gateway_balance'', JList [JStr addr])]) a"
  by (simp add: test_gateway_balance_def on_return_simps split: sum.splits)

lemma test_gateway_nonce_effect:
  "on_return (test_gateway_nonce e addr) (\<lambda>b a'.
     (\<exists>p. log_of a' = log_of a @ [(''Gateway Nonce'', p)])
     \<and> rpc_calls (wire a') = rpc_calls (wire a) @ [(''gateway_nonce'', JList [JStr addr])]) a"
  by (simp add: test_gateway_nonce_def on_return_simps split: sum.splits)

section \<open>Facts used by the claims\<close>

text \<open>Searching a list, \<^verbatim>\<open>str.replace\<close> on a URL, what follows from steadiness for a freshly
  constructed agent, the shape of the log after a full run, and the probes evaluated
  against the concrete nodes of the examples.\<close>

lemma find_first:
  "(\<forall>x\<in>set pre. \<not> P x) \<Longrightarrow> P r \<Longrightarrow> find P (pre @ r # post) = Some r"
  by (induction pre) auto

lemma find_none: "(\<forall>x\<in>set xs. \<not> P x) \<Longrightarrow> find P xs = None"
  by (induction xs) auto

lemma py_replace_Nil: "old \<noteq> [] \<Longrightarrow> py_replace old new [] = []"
  by (simp add: py_replace.simps)

lemma py_replace_hit:
  "old \<noteq> [] \<Longrightarrow> py_replace old new (old @ s) = new @ py_replace old new s"
  by (subst py_replace.simps) simp

lemma py_replace_miss:
  "old \<noteq> [] \<Longrightarrow> \<not> prefix old (c # s) \<Longrightarrow>
   py_replace old new (c # s) = c # py_replace old new s"
  by (subst py_replace.simps) simp

lemma py_replace_absent:
  "old \<noteq> [] \<Longrightarrow> \<not> str_contains old s \<Longrightarrow> py_replace old new s = s"
  by (induction s) (simp_all add: py_replace_Nil py_replace_miss)

lemma node_url_ws:
  "node_url (NodeAgent_init (''ws://'' @ rest) f) =
     ''http://'' @ py_replace ''wss://'' ''https://'' (py_replace ''ws://'' ''http://'' rest)"
proof -
  have 1: "py_replace ''ws://'' ''http://'' (''ws://'' @ rest)
            = ''http://'' @ py_replace ''ws://'' ''http://'' rest"
    by (rule py_replace_hit) simp
  have 2: "py_replace ''wss://'' ''https://'' (''http://'' @ r)
            = ''http://'' @ py_replace ''wss://'' ''https://'' r" for r
    by (simp add: py_replace_miss)
  show ?thesis by (simp only: NodeAgent_init_def NodeAgent.simps 1 2)
qed

lemma node_url_wss:
  "node_url (NodeAgent_init (''wss://'' @ rest) f) =
     ''https://'' @ py_replace ''wss://'' ''https://'' (py_replace ''ws://'' ''http://'' rest)"
proof -
  have 1: "py_replace ''ws://'' ''http://'' (''wss://'' @ rest)
            = ''wss://'' @ py_replace ''ws://'' ''http://'' rest"
    by (simp add: py_replace_miss)
  have 2: "py_replace ''wss://'' ''https://'' (''wss://'' @ r)
            = ''https://'' @ py_replace ''wss://'' ''https://'' r" for r
    by (rule py_replace_hit) simp
  show ?thesis by (simp only: NodeAgent_init_def NodeAgent.simps 1 2)
qed

lemma steady_urls:
  assumes "steady m"
  shows "node_url (snd (m (NodeAgent_init n f))) = node_url (NodeAgent_init n f)"
    and "faucet_url (snd (m (NodeAgent_init n f))) = f"
    and "set (rpc_urls (wire (snd (m (NodeAgent_init n f))))) \<subseteq> {node_url (NodeAgent_init n f)}"
    and "rpc_ids (wire (snd (m (NodeAgent_init n f))))
           = map JInt [1 .. rpc_id (snd (m (NodeAgent_init n f)))]"
  using assms unfolding steady_def extends_def
  by (auto dest!: spec [of _ "NodeAgent_init n f"])

lemma node_url_plain:
  "\<not> str_contains ''ws://'' rest \<and> \<not> str_contains ''wss://'' rest \<longrightarrow>
        node_url (NodeAgent_init (''ws://'' @ rest) f) = ''http://'' @ rest
        \<and> node_url (NodeAgent_init (''wss://'' @ rest) f) = ''https://'' @ rest"
  by (simp only: node_url_ws node_url_wss) (simp add: py_replace_absent)

lemma rpc_call_unfolded:
  "rpc_call e m ps a
        = (Inr (make_request_result
                 (http e (length (wire a))
                    (POST (node_url a) (rpc_envelope (rpc_id a + 1) m ps)))),
           a\<lparr>rpc_id := rpc_id a + 1,
             wire := wire a @ [POST (node_url a) (rpc_envelope (rpc_id a + 1) m ps)]\<rparr>)"
  by (simp add: rpc_call_eq rpc_response_def rpc_sent_def rpc_request_def)

lemma distinct_JInt_upto: "distinct (map JInt [i .. j])"
  by (simp add: distinct_map inj_on_def)

lemma agent0_simps [simp]:
  "faucet_url agent0 = Some ''http://localhost:3000''"
  "results agent0 = []" "wire agent0 = []" "rpc_id agent0 = 0" "log_of agent0 = []"
  by (simp_all add: agent0_def)

lemma and_then_faucet_get:
  "\<not> py_not (faucet_url a) \<Longrightarrow>
   and_then (faucet_call e ep ''GET'' None) f a =
     f (faucet_get_result (http e (length (wire a)) (GET (the (faucet_url a) @ ep))))
       (faucet_sent a (GET (the (faucet_url a) @ ep)))"
  by (simp add: and_then_def faucet_get_eq)

lemma lift_Inr: "lift (Inr v) = ret v"
  by (simp add: lift_def ret_def fun_eq_iff)

lemma int16_default: "int_of_str 16 ''0x0'' = Inr 0"
  by code_simp



lemma on_return_print_summary: "on_return print_summary Q a = Q (summary_of (results a)) a"
  by (simp add: on_return_def print_summary_def)

lemma on_return_step:
  "on_return m P a \<Longrightarrow> (\<And>v b. P v b \<Longrightarrow> on_return (f v) Q b) \<Longrightarrow> on_return (and_then m f) Q a"
proof -
  assume m: "on_return m P a" and f: "\<And>v b. P v b \<Longrightarrow> on_return (f v) Q b"
  obtain r b where mb: "m a = (r, b)" by (cases "m a")
  show ?thesis
  proof (cases r)
    case (Inl x)
    with mb show ?thesis by (simp add: on_return_def and_then_def)
  next
    case (Inr v)
    with mb m have "P v b" by (simp add: on_return_def)
    from f [OF this] mb Inr show ?thesis by (simp add: on_return_def and_then_def)
  qed
qed

lemma on_return_ifI:
  "(c \<Longrightarrow> on_return m1 Q a) \<Longrightarrow> (\<not> c \<Longrightarrow> on_return m2 Q a) \<Longrightarrow>
   on_return (if c then m1 else m2) Q a"
  by simp

lemma on_return_if_bind:
  "(c \<Longrightarrow> on_return (and_then m1 f) Q a) \<Longrightarrow> (\<not> c \<Longrightarrow> on_return (and_then m2 f) Q a) \<Longrightarrow>
   on_return (and_then (if c then m1 else m2) f) Q a"
  by simp

lemma and_then_assoc: "and_then (and_then m g) f = and_then m (\<lambda>v. and_then (g v) f)"
  by (auto simp: and_then_def fun_eq_iff split: prod.splits sum.splits)

lemmas probe_steps =
  on_return_step [OF test_connection_effect] on_return_step [OF test_chain_info_effect]
  on_return_step [OF test_peers_effect] on_return_step [OF test_faucet_health_effect]
  on_return_step [OF test_faucet_drip_effect] on_return_step [OF generate_test_account_effect]
  on_return_step [OF test_account_balance_effect] on_return_step [OF test_qrng_config_effect]
  on_return_step [OF test_qrng_device_queues_effect]
  on_return_step [OF test_qrng_reconstruction_effect]
  on_return_step [OF test_notarial_service_effect]
  on_return_step [OF test_governance_stats_effect]
  on_return_step [OF test_proposals_effect] on_return_step [OF test_validator_set_effect]
  on_return_step [OF test_rewards_info_effect] on_return_step [OF test_gateway_balance_effect]
  on_return_step [OF test_gateway_nonce_effect]

lemma full_run_shape:
  "on_return (run_full_test e) (\<lambda>out a'.
     (out = None \<and> log_of a' = log_of a @ [(''RPC Connection'', False)])
       \<or> (\<exists>h addr p1 p2 p3 p4 p5 p6 p7 p8 p9 p10 p11 p12.
            out \<noteq> None \<and>
            log_of a' = log_of a @
              [(''RPC Connection'', True), (''Chain Info'', True), (''Peer Connections'', p1),
               (''Faucet Health'', h), (''Account Selection'', True), (''Account Balance'', True)]
              @ (if h then [(''Faucet Drip'', p2), (''Account Balance'', True)] else [])
              @ [(''Gateway Balance'', p3), (''Gateway Nonce'', p4), (''QRNG Config'', p5),
                 (''QRNG Queues'', p6), (''QRNG History'', p7), (''Notarial Service'', p8),
                 (''Governance Stats'', p9), (''Proposals'', p10), (''Validator Set'', p11),
                 (''Rewards Info'', p12)]
          \<and> filter (\<lambda>c. fst c = ''system_account'') (rpc_calls (wire a')) =
              filter (\<lambda>c. fst c = ''system_account'') (rpc_calls (wire a)) @
              (if h then [(''system_account'', JList [JStr addr]), (''system_account'', JList [JStr addr])]
               else [(''system_account'', JList [JStr addr])]))) a"
  unfolding run_full_test_def
  apply (rule probe_steps, elim conjE exE)
  apply (rule on_return_ifI)
   apply (simp add: on_return_ret)
  apply ((rule probe_steps, elim conjE exE)+)
  apply (rule on_return_if_bind)
   apply (simp only: and_then_assoc)
   apply ((rule probe_steps, elim conjE exE)+)
   apply (simp only: and_then_ret)
   apply ((rule probe_steps, elim conjE exE)+)
   apply (auto simp: on_return_and_then on_return_print_summary on_return_ret)[1]
  apply (simp only: and_then_ret)
  apply ((rule probe_steps, elim conjE exE)+)
  apply (auto simp: on_return_and_then on_return_print_summary on_return_ret)
  done

lemma stub_response:
  "rpc_response (env_with_balance bal) a m ps =
     (if m = ''system_account'' then bal else JObj [(''result'', JObj [])])"
  by (simp add: rpc_response_def env_with_balance_def rpc_request_def rpc_envelope_def
      make_request_result_def)

lemma stub_get:
  "faucet_get_result (http (env_with_balance bal) n (GET u)) = JObj [(''status'', JStr ''ok'')]"
  by (simp add: env_with_balance_def faucet_get_result_def)

lemma stub_post:
  "make_request_result (http (env_with_balance bal) n (POST u (JObj [(''address'', x)])))
     = JObj [(''result'', JObj [])]"
  by (simp add: env_with_balance_def make_request_result_def)

lemma stub_rand: "randbelow (env_with_balance bal) n = 0"
  by (simp add: env_with_balance_def)

lemma and_then_faucet_post:
  "\<not> py_not (faucet_url a) \<Longrightarrow>
   and_then (faucet_call e ep ''POST'' (Some (JObj [(''address'', x)]))) f a =
     f (make_request_result (http e (length (wire a))
             (POST (the (faucet_url a) @ ep) (JObj [(''address'', x)]))))
       (faucet_sent a (POST (the (faucet_url a) @ ep) (JObj [(''address'', x)])))"
  by (simp add: and_then_def faucet_post_eq)

lemma and_then_state_if:
  "and_then (\<lambda>a. if P a then m1 a else m2 a) f a = (if P a then and_then m1 f a else and_then m2 f a)"
  by (simp add: and_then_def)

lemma stub_connection:
  "fst (test_connection (env_with_balance bal) a) = Inr True
   \<and> log_of (snd (test_connection (env_with_balance bal) a)) = log_of a @ [(''RPC Connection'', True)]"
  by (simp add: test_connection_def step_simps and_then_state_if stub_response alice_def)

lemma stub_chain_info:
  "(\<exists>v. fst (test_chain_info (env_with_balance bal) a) = Inr v)
   \<and> log_of (snd (test_chain_info (env_with_balance bal) a)) = log_of a @ [(''Chain Info'', True)]"
  by (simp add: test_chain_info_def int16_default Let_def step_simps and_then_state_if stub_response alice_def)

lemma stub_peers:
  "(\<exists>v. fst (test_peers (env_with_balance bal) a) = Inr v)
   \<and> log_of (snd (test_peers (env_with_balance bal) a)) = log_of a @ [(''Peer Connections'', False)]"
  by (simp add: test_peers_def step_simps and_then_state_if stub_response alice_def)

lemma stub_faucet_health:
  "\<not> py_not (faucet_url a) \<Longrightarrow>
   fst (test_faucet_health (env_with_balance bal) a) = Inr True
   \<and> log_of (snd (test_faucet_health (env_with_balance bal) a)) = log_of a @ [(''Faucet Health'', True)]"
  by (simp add: test_faucet_health_def and_then_faucet_get stub_get step_simps and_then_state_if stub_response alice_def)

lemma stub_account:
  "fst (generate_test_account (env_with_balance bal) a) = Inr \<lparr>acc_name = ''Bob'', acc_address = bob, acc_type = ''dev''\<rparr>
   \<and> log_of (snd (generate_test_account (env_with_balance bal) a)) = log_of a @ [(''Account Selection'', True)]"
  by (simp add: generate_test_account_def secrets_choice_def stub_rand DEV_ACCOUNTS_def bob_def Let_def step_simps and_then_state_if stub_response alice_def)

lemma stub_faucet_drip:
  "\<not> py_not (faucet_url a) \<Longrightarrow>
   (\<exists>v. fst (test_faucet_drip (env_with_balance bal) addr a) = Inr v)
   \<and> log_of (snd (test_faucet_drip (env_with_balance bal) addr a)) = log_of a @ [(''Faucet Drip'', False)]"
  by (simp add: test_faucet_drip_def and_then_faucet_post stub_post step_simps and_then_state_if stub_response alice_def)

lemma stub_gateway_balance:
  "(\<exists>v. fst (test_gateway_balance (env_with_balance bal) addr a) = Inr v)
   \<and> log_of (snd (test_gateway_balance (env_with_balance bal) addr a)) = log_of a @ [(''Gateway Balance'', True)]"
  by (simp add: test_gateway_balance_def step_simps and_then_state_if stub_response alice_def)

lemma stub_gateway_nonce:
  "(\<exists>v. fst (test_gateway_nonce (env_with_balance bal) addr a) = Inr v)
   \<and> log_of (snd (test_gateway_nonce (env_with_balance bal) addr a)) = log_of a @ [(''Gateway Nonce'', True)]"
  by (simp add: test_gateway_nonce_def step_simps and_then_state_if stub_response alice_def)

lemma stub_qrng_config:
  "(\<exists>v. fst (test_qrng_config (env_with_balance bal) a) = Inr v)
   \<and> log_of (snd (test_qrng_config (env_with_balance bal) a)) = log_of a @ [(''QRNG Config'', True)]"
  by (simp add: test_qrng_config_def step_simps and_then_state_if stub_response alice_def)

lemma stub_qrng_device_queues:
  "(\<exists>v. fst (test_qrng_device_queues (env_with_balance bal) a) = Inr v)
   \<and> log_of (snd (test_qrng_device_queues (env_with_balance bal) a)) = log_of a @ [(''QRNG Queues'', True)]"
  by (simp add: test_qrng_device_queues_def list_count_eq step_simps and_then_state_if stub_response alice_def)

lemma stub_qrng_reconstruction:
  "(\<exists>v. fst (test_qrng_reconstruction (env_with_balance bal) a) = Inr v)
   \<and> log_of (snd (test_qrng_reconstruction (env_with_balance bal) a)) = log_of a @ [(''QRNG History'', True)]"
  by (simp add: test_qrng_reconstruction_def list_count_eq step_simps and_then_state_if stub_response alice_def)

lemma stub_notarial:
  "(\<exists>v. fst (test_notarial_service (env_with_balance bal) a) = Inr v)
   \<and> log_of (snd (test_notarial_service (env_with_balance bal) a)) = log_of a @ [(''Notarial Service'', True)]"
  by (simp add: test_notarial_service_def list_count_eq py_or_def Let_def step_simps and_then_state_if stub_response alice_def)

lemma stub_governance_stats:
  "(\<exists>v. fst (test_governance_stats (env_with_balance bal) a) = Inr v)
   \<and> log_of (snd (test_governance_stats (env_with_balance bal) a)) = log_of a @ [(''Governance Stats'', True)]"
  by (simp add: test_governance_stats_def step_simps and_then_state_if stub_response alice_def)

lemma stub_proposals:
  "(\<exists>v. fst (test_proposals (env_with_balance bal) a) = Inr v)
   \<and> log_of (snd (test_proposals (env_with_balance bal) a)) = log_of a @ [(''Proposals'', True)]"
  by (simp add: test_proposals_def list_count_eq py_or_def Let_def step_simps and_then_state_if stub_response alice_def)

lemma stub_validator_set:
  "(\<exists>v. fst (test_validator_set (env_with_balance bal) a) = Inr v)
   \<and> log_of (snd (test_validator_set (env_with_balance bal) a)) = log_of a @ [(''Validator Set'', True)]"
  by (simp add: test_validator_set_def list_count_eq py_or_def Let_def step_simps and_then_state_if stub_response alice_def)

lemma stub_rewards_info:
  "(\<exists>v. fst (test_rewards_info (env_with_balance bal) None a) = Inr v)
   \<and> log_of (snd (test_rewards_info (env_with_balance bal) None a)) = log_of a @ [(''Rewards Info'', True)]"
  by (simp add: test_rewards_info_def py_not_def Let_def step_simps and_then_state_if stub_response alice_def)

lemma stub_balance_null:
  "fst (test_account_balance (env_with_balance (JObj [(''result'', JNull)])) addr a) = Inr 0
   \<and> log_of (snd (test_account_balance (env_with_balance (JObj [(''result'', JNull)])) addr a))
       = log_of a @ [(''Account Balance'', True)]"
  by (simp add: test_account_balance_def balance_zero_def step_simps stub_response)

lemma hex_refused: "int_of_str 10 ''0x10'' = Inl ValueError"
  by code_simp

lemma stub_balance_hex:
  "fst (test_account_balance (env_with_balance
          (JObj [(''result'', JObj [(''data'', JObj [(''free'', JStr ''0x10'')])])])) addr a)
     = Inl ValueError
   \<and> log_of (snd (test_account_balance (env_with_balance
          (JObj [(''result'', JObj [(''data'', JObj [(''free'', JStr ''0x10'')])])])) addr a))
       = log_of a"
  by (simp add: test_account_balance_def balance_zero_def step_simps stub_response hex_refused)

lemma stub_faucet_unconfigured:
  "py_not (faucet_url a) \<Longrightarrow>
   fst (test_faucet_health e a) = Inr False
   \<and> log_of (snd (test_faucet_health e a)) = log_of a @ [(''Faucet Health'', False)]"
  by (simp add: test_faucet_health_def step_simps)

lemma and_then_fst_snd:
  "and_then m f a = (case fst (m a) of Inr v \<Rightarrow> f v (snd (m a)) | Inl x \<Rightarrow> (Inl x, snd (m a)))"
  by (simp add: and_then_def split: prod.splits sum.splits)

lemma case_returns: "\<exists>v. r = Inr v \<Longrightarrow> (case r of Inr v \<Rightarrow> c | Inl x \<Rightarrow> d x) = c"
  by auto

lemma steady_faucet_url: "steady m \<Longrightarrow> faucet_url (snd (m a)) = faucet_url a"
  by (simp add: steady_def extends_def)

lemmas probes_keep_faucet_url = steady_probes [THEN steady_faucet_url]

lemma print_summary_fst_snd:
  "fst (print_summary a) = Inr (summary_of (results a))" "snd (print_summary a) = a"
  by (simp_all add: print_summary_def)

lemma ret_fst_snd: "fst (ret v a) = Inr v" "snd (ret v a) = a"
  by (simp_all add: ret_def)

lemmas stub_probes = stub_connection stub_chain_info stub_peers stub_faucet_health stub_account stub_faucet_drip stub_gateway_balance stub_gateway_nonce stub_qrng_config stub_qrng_device_queues stub_qrng_reconstruction stub_notarial stub_governance_stats stub_proposals stub_validator_set stub_rewards_info

lemmas run_simps = and_then_fst_snd case_returns probes_keep_faucet_url print_summary_fst_snd
  ret_fst_snd stub_probes

lemma agent0_configured: "\<not> py_not (faucet_url agent0)"
  by (simp add: agent0_def py_not_def)

lemma run_null_balance:
  "(\<exists>s. fst (run_full_test env_null_balance agent0) = Inr (Some s))
   \<and> log_of (snd (run_full_test env_null_balance agent0)) =
      [(''RPC Connection'', True), (''Chain Info'', True), (''Peer Connections'', False),
       (''Faucet Health'', True), (''Account Selection'', True), (''Account Balance'', True),
       (''Faucet Drip'', False), (''Account Balance'', True), (''Gateway Balance'', True),
       (''Gateway Nonce'', True), (''QRNG Config'', True), (''QRNG Queues'', True),
       (''QRNG History'', True), (''Notarial Service'', True), (''Governance Stats'', True),
       (''Proposals'', True), (''Validator Set'', True), (''Rewards Info'', True)]"
  unfolding run_full_test_def env_null_balance_def
  by (simp add: run_simps stub_balance_null py_not_def)

lemma run_no_faucet:
  "(\<exists>s. fst (run_full_test env_null_balance agent_no_faucet) = Inr (Some s))
   \<and> log_of (snd (run_full_test env_null_balance agent_no_faucet)) =
      [(''RPC Connection'', True), (''Chain Info'', True), (''Peer Connections'', False),
       (''Faucet Health'', False), (''Account Selection'', True), (''Account Balance'', True),
       (''Gateway Balance'', True),
       (''Gateway Nonce'', True), (''QRNG Config'', True), (''QRNG Queues'', True),
       (''QRNG History'', True), (''Notarial Service'', True), (''Governance Stats'', True),
       (''Proposals'', True), (''Validator Set'', True), (''Rewards Info'', True)]"
  unfolding run_full_test_def env_null_balance_def
  by (simp add: run_simps stub_balance_null stub_faucet_unconfigured agent_no_faucet_def py_not_def)

section \<open>The claims\<close>

subsection \<open>C1: the service status table\<close>

text \<open>
  C1, as the code has it. For every result log and each of the six service names, the row of
  the status table is decided by the \<^emph>\<open>first\<close> entry recorded under that name:
  \<open>UNKNOWN\<close> when the log has no entry with the name, and otherwise \<open>ONLINE\<close> or
  \<open>OFFLINE\<close> as the earliest such entry passed or failed, whatever was recorded under
  the same name later.
\<close>

theorem status_table_first_match:
  assumes "(test_name, display) \<in> set services"
  shows "((\<forall>r\<in>set rs. name r \<noteq> test_name) \<longrightarrow>
            map_of (service_rows (summary_of rs)) display = Some UNKNOWN)
       \<and> (rs = pre @ r # post \<and> (\<forall>x\<in>set pre. name x \<noteq> test_name)
              \<and> name r = test_name \<longrightarrow>
            map_of (service_rows (summary_of rs)) display
              = Some (if passed r then ONLINE else OFFLINE))"
proof -
  have row: "map_of (service_rows (summary_of rs)) display = Some (service_status rs test_name)"
    using assms by (auto simp: summary_of_def services_def Let_def)
  show ?thesis
    unfolding row service_status_def
    by (auto simp: find_first find_none)
qed

theorem status_table_first_match_witness:
  "map_of (service_rows (summary_of log_two_connections)) ''RPC'' = Some OFFLINE
   \<and> map_of (service_rows (summary_of log_two_connections)) ''Faucet'' = Some UNKNOWN"
  using status_table_first_match [of "''RPC Connection''" "''RPC''" log_two_connections
      "[]" "hd log_two_connections" "tl log_two_connections"]
    status_table_first_match [of "''Faucet Health''" "''Faucet''" log_two_connections
      "[]" "hd log_two_connections" "tl log_two_connections"]
  by (simp add: services_def log_two_connections_def)

text \<open>
  C1 as the specification states it fails: with a failed connection entry followed by a
  passed one, the most recent entry passed, yet the table shows the service as
  \<open>OFFLINE\<close>.
\<close>

theorem status_table_most_recent_counterexample:
  "map_of (service_rows (summary_of log_two_connections)) ''RPC'' = Some OFFLINE
   \<and> spec_most_recent_status log_two_connections ''RPC Connection'' = ONLINE"
  by (simp add: summary_of_def services_def service_status_def spec_most_recent_status_def
      log_two_connections_def)

subsection \<open>C2: responses of unexpected shape\<close>




subsection \<open>C3: an empty list as result\<close>

text \<open>
  C3 as the specification states it fails for the Peers probe: when \<^verbatim>\<open>system_peers\<close>
  answers with an empty list, the probe records \<open>passed = False\<close>, because its
  verdict is \<^verbatim>\<open>peer_count > 0\<close>.
\<close>

theorem peers_empty_list_counterexample:
  "test_peers env_empty_list agent0 =
     (Inr (JList []),
      recorded (rpc_sent agent0 ''system_peers'' None)
        \<lparr>name = ''Peer Connections'', passed = False, message = ''0 peers connected'',
         details = Some (JObj [(''peers'', JList [])])\<rparr>)"
  by (simp add: test_peers_def step_simps rpc_response_def make_request_result_def
      env_empty_list_def dec_int_def digit_char_def)

text \<open>
  C3, as the code has it. When the response is an object whose \<^verbatim>\<open>result\<close> is the empty
  list, the Notarial probe and the Proposals probe record \<open>passed = True\<close> with a count of
  zero, and the Peers probe records \<open>passed = False\<close> with the message
  \<open>0 peers connected\<close>. When the response is an object without a \<^verbatim>\<open>result\<close> key, the
  Proposals probe and the Peers probe record \<open>passed = False\<close> with their
  \<open>Failed to get ...\<close> message.
\<close>

theorem empty_list_verdicts:
  shows "(rpc_response e a ''notarial_getAttestationsByOwner'' (Some [JStr alice]) = JObj kvs
          \<and> map_of kvs ''result'' = Some (JList []) \<longrightarrow>
           test_notarial_service e a =
             (Inr True,
              recorded (rpc_sent a ''notarial_getAttestationsByOwner'' (Some [JStr alice]))
                \<lparr>name = ''Notarial Service'', passed = True, message = ''0 attestations found'',
                 details = Some (JObj [(''count'', JInt 0)])\<rparr>))
       \<and> (rpc_response e a ''quantumharmony_getProposals'' None = JObj kvs
          \<and> map_of kvs ''result'' = Some (JList []) \<longrightarrow>
           test_proposals e a =
             (Inr (JList []),
              recorded (rpc_sent a ''quantumharmony_getProposals'' None)
                \<lparr>name = ''Proposals'', passed = True, message = ''0 proposals'',
                 details = Some (JObj [(''count'', JInt 0)])\<rparr>))
       \<and> (rpc_response e a ''system_peers'' None = JObj kvs
          \<and> map_of kvs ''result'' = Some (JList []) \<longrightarrow>
           test_peers e a =
             (Inr (JList []),
              recorded (rpc_sent a ''system_peers'' None)
                \<lparr>name = ''Peer Connections'', passed = False, message = ''0 peers connected'',
                 details = Some (JObj [(''peers'', JList [])])\<rparr>))
       \<and> (rpc_response e a ''quantumharmony_getProposals'' None = JObj kvs
          \<and> map_of kvs ''result'' = None \<longrightarrow>
           test_proposals e a =
             (Inr (JList []),
              recorded (rpc_sent a ''quantumharmony_getProposals'' None)
                \<lparr>name = ''Proposals'', passed = False, message = ''Failed to get proposals'',
                 details = None\<rparr>))
       \<and> (rpc_response e a ''system_peers'' None = JObj kvs
          \<and> map_of kvs ''result'' = None \<longrightarrow>
           test_peers e a =
             (Inr (JList []),
              recorded (rpc_sent a ''system_peers'' None)
                \<lparr>name = ''Peer Connections'', passed = False, message = ''Failed to get peers'',
                 details = None\<rparr>))"
  by (simp add: test_notarial_service_def test_proposals_def test_peers_def step_simps
      list_count_def py_or_def Let_def dec_int_def digit_char_def)

theorem empty_list_verdicts_witness:
  "test_notarial_service env_empty_list agent0 =
     (Inr True,
      recorded (rpc_sent agent0 ''notarial_getAttestationsByOwner'' (Some [JStr alice]))
        \<lparr>name = ''Notarial Service'', passed = True, message = ''0 attestations found'',
         details = Some (JObj [(''count'', JInt 0)])\<rparr>)
   \<and> test_proposals env_empty_list agent0 =
     (Inr (JList []),
      recorded (rpc_sent agent0 ''quantumharmony_getProposals'' None)
        \<lparr>name = ''Proposals'', passed = True, message = ''0 proposals'',
         details = Some (JObj [(''count'', JInt 0)])\<rparr>)
   \<and> test_proposals env_refused agent0 =
     (Inr (JList []),
      recorded (rpc_sent agent0 ''quantumharmony_getProposals'' None)
        \<lparr>name = ''Proposals'', passed = False, message = ''Failed to get proposals'',
         details = None\<rparr>)
   \<and> test_peers env_refused agent0 =
     (Inr (JList []),
      recorded (rpc_sent agent0 ''system_peers'' None)
        \<lparr>name = ''Peer Connections'', passed = False, message = ''Failed to get peers'',
         details = None\<rparr>)"
  using empty_list_verdicts [of env_empty_list agent0 "[(''result'', JList [])]"]
    empty_list_verdicts [of env_refused agent0
      "[(''error'', JObj [(''code'', JInt (- 1)),
                         (''message'', JStr ''[Errno 111] Connection refused'')])]"]
  by (simp add: rpc_response_def make_request_result_def env_empty_list_def env_refused_def
      error_obj_def)

subsection \<open>C4: a failed connectivity probe ends the run\<close>

text \<open>
  C4. If the Connectivity probe, run first by both pipelines, records a failure (it returns
  \<^verbatim>\<open>False\<close>), then each pipeline returns at once without a report and leaves the agent as
  that probe left it: the log has grown by the single failed \<open>RPC Connection\<close> entry,
  one request was sent, and no other probe has run. For an agent whose log was empty, as
  the constructor leaves it, the log holds exactly one entry.
\<close>

theorem connectivity_failure_aborts:
  assumes "fst (test_connection e a) = Inr False"
  shows "run_health_check e a = (Inr None, snd (test_connection e a))
       \<and> run_full_test e a = (Inr None, snd (test_connection e a))
       \<and> log_of (snd (test_connection e a)) = log_of a @ [(''RPC Connection'', False)]
       \<and> wire (snd (test_connection e a)) = wire a @ [rpc_request a ''system_health'' None]
       \<and> (results a = [] \<longrightarrow> length (results (snd (test_connection e a))) = 1)"
proof -
  obtain a' where tc: "test_connection e a = (Inr False, a')"
    using assms by (cases "test_connection e a") auto
  have runs: "run_health_check e a = (Inr None, a')" "run_full_test e a = (Inr None, a')"
    using tc by (simp_all add: run_health_check_def run_full_test_def and_then_def ret_def)
  have log: "log_of a' = log_of a @ [(''RPC Connection'', False)]"
    using on_returnD [OF test_connection_effect tc] by simp
  have w: "wire a' = wire a @ [rpc_request a ''system_health'' None]"
    using tc by (auto simp: test_connection_def and_then_Inr_iff rpc_call_eq lift_def ret_def
        record_result_eq split: if_splits)
  from log have "length (log_of a') = length (log_of a) + 1" by simp
  then have "results a = [] \<longrightarrow> length (results a') = 1"
    by (simp add: log_of_def)
  with runs log w tc show ?thesis by simp
qed

theorem connectivity_failure_aborts_witness:
  "run_health_check env_refused agent0 = run_full_test env_refused agent0
   \<and> fst (run_full_test env_refused agent0) = Inr None
   \<and> log_of (snd (run_full_test env_refused agent0)) = [(''RPC Connection'', False)]
   \<and> length (results (snd (run_full_test env_refused agent0))) = 1"
proof -
  have "test_connection env_refused agent0 =
      (Inr False, recorded (rpc_sent agent0 ''system_health'' None)
         \<lparr>name = ''RPC Connection'', passed = False,
          message = ''Failed: [Errno 111] Connection refused'', details = None\<rparr>)"
    by (simp add: test_connection_def step_simps rpc_response_def make_request_result_def
        env_refused_def error_obj_def)
  then have h: "fst (test_connection env_refused agent0) = Inr False" by simp
  show ?thesis
    using connectivity_failure_aborts [OF h] by (simp add: agent0_def)
qed

subsection \<open>C5: envelope ids\<close>

text \<open>
  C5. In a run of either pipeline on a freshly constructed agent, whether the run returns or
  raises, the ids of the JSON-RPC envelopes sent are, in the order of sending, the integers
  1, 2, ..., N, where N is the final value of the counter. So they are strictly
  increasing and pairwise distinct, and the set of ids has as many elements as there were
  calls. Each \<^verbatim>\<open>rpc_call\<close> increments the counter by one and sends the new value as its id.
\<close>

theorem rpc_ids_increasing:
  "rpc_ids (wire (snd (run_health_check e (NodeAgent_init n f))))
     = map JInt [1 .. rpc_id (snd (run_health_check e (NodeAgent_init n f)))]
   \<and> rpc_ids (wire (snd (run_full_test e (NodeAgent_init n f))))
     = map JInt [1 .. rpc_id (snd (run_full_test e (NodeAgent_init n f)))]
   \<and> sorted_wrt (<) [1 .. rpc_id (snd (run_health_check e (NodeAgent_init n f)))]
   \<and> sorted_wrt (<) [1 .. rpc_id (snd (run_full_test e (NodeAgent_init n f)))]
   \<and> distinct (rpc_ids (wire (snd (run_health_check e (NodeAgent_init n f)))))
   \<and> distinct (rpc_ids (wire (snd (run_full_test e (NodeAgent_init n f)))))
   \<and> card (set (rpc_ids (wire (snd (run_health_check e (NodeAgent_init n f))))))
       = length (rpc_ids (wire (snd (run_health_check e (NodeAgent_init n f)))))
   \<and> card (set (rpc_ids (wire (snd (run_full_test e (NodeAgent_init n f))))))
       = length (rpc_ids (wire (snd (run_full_test e (NodeAgent_init n f)))))
   \<and> rpc_id (snd (rpc_call e m ps a)) = rpc_id a + 1
   \<and> envelope_id (last (wire (snd (rpc_call e m ps a)))) = JInt (rpc_id a + 1)"
proof -
  have h: "rpc_ids (wire (snd (run_health_check e (NodeAgent_init n f))))
     = map JInt [1 .. rpc_id (snd (run_health_check e (NodeAgent_init n f)))]"
    by (rule steady_urls [OF steady_run_health_check])
  have t: "rpc_ids (wire (snd (run_full_test e (NodeAgent_init n f))))
     = map JInt [1 .. rpc_id (snd (run_full_test e (NodeAgent_init n f)))]"
    by (rule steady_urls [OF steady_run_full_test])
  have s: "sorted_wrt (<) [1 .. j]" for j :: int
    using sorted_wrt_upto by simp
  have c: "card (set (map JInt [1 .. j])) = length (map JInt [1 .. j])" for j :: int
    using distinct_card [OF distinct_JInt_upto] by blast
  have r: "rpc_id (snd (rpc_call e m ps a)) = rpc_id a + 1"
    "envelope_id (last (wire (snd (rpc_call e m ps a)))) = JInt (rpc_id a + 1)"
    by (simp_all add: rpc_call_eq rpc_request_def rpc_envelope_def)
  show ?thesis
    unfolding h t by (intro conjI refl s c r distinct_JInt_upto)
qed

subsection \<open>C6: the faucet health probe\<close>

text \<open>
  C6 as the specification states it fails: a faucet response whose \<^verbatim>\<open>error\<close> is a string
  and not an object gets no failure message at all. \<^verbatim>\<open>result["error"].get\<close> raises
  \<^verbatim>\<open>AttributeError\<close>, the exception leaves the probe, and nothing is recorded.
\<close>

theorem faucet_health_error_string_counterexample:
  "test_faucet_health env_error_string agent0 =
     (Inl AttributeError, faucet_sent agent0 (GET ''http://localhost:3000/health''))
   \<and> results (faucet_sent agent0 (GET ''http://localhost:3000/health'')) = []"
  by (simp add: test_faucet_health_def py_not_def and_then_faucet_get step_simps
      faucet_get_result_def env_error_string_def)

text \<open>
  C6, as the code has it. Let a faucet URL be configured and the response to
  \<^verbatim>\<open>GET /health\<close> (the parsed body, or the error dictionary that the transport builds from
  an exception) be a JSON object whose \<^verbatim>\<open>error\<close> member, when present, is an object.
  \<^item> With an \<^verbatim>\<open>error\<close> member the probe records \<open>passed = False\<close>; the message is
    the service-down message when the text of the error's \<^verbatim>\<open>message\<close> contains
    \<open>502\<close> or \<open>Bad Gateway\<close>; otherwise the not-running message when it contains
    \<open>Connection refused\<close>; otherwise \<open>Error: \<close> followed by that text.
  \<^item> Without an \<^verbatim>\<open>error\<close> member the probe returns \<^verbatim>\<open>True\<close> and records
    \<open>passed = True\<close>, whether or not the response has a \<^verbatim>\<open>status\<close> or
    \<^verbatim>\<open>healthy\<close> member.
\<close>

theorem faucet_health_verdict:
  assumes "\<not> py_not (faucet_url a)"
    and "faucet_get_result (http e (length (wire a)) (GET (the (faucet_url a) @ ''/health'')))
           = JObj kvs"
    and "\<forall>v. map_of kvs ''error'' = Some v \<longrightarrow> (\<exists>err. v = JObj err)"
  shows "(\<forall>err. map_of kvs ''error'' = Some (JObj err) \<longrightarrow>
           test_faucet_health e a =
             (Inr False,
              recorded (faucet_sent a (GET (the (faucet_url a) @ ''/health'')))
                \<lparr>name = ''Faucet Health'', passed = False,
                 message =
                   (let msg = py_str (case map_of err ''message'' of
                                        None \<Rightarrow> JStr ''Unknown error'' | Some m \<Rightarrow> m)
                    in if str_contains ''502'' msg \<or> str_contains ''Bad Gateway'' msg
                         then ''502 Bad Gateway - Faucet service is down''
                       else if str_contains ''Connection refused'' msg
                         then ''Connection refused - Faucet not running''
                       else ''Error: '' @ msg),
                 details = None\<rparr>))
       \<and> (map_of kvs ''error'' = None \<longrightarrow>
            fst (test_faucet_health e a) = Inr True
            \<and> log_of (snd (test_faucet_health e a)) = log_of a @ [(''Faucet Health'', True)])"
proof (intro conjI allI impI)
  fix err assume "map_of kvs ''error'' = Some (JObj err)"
  with assms(1,2) show "test_faucet_health e a =
             (Inr False,
              recorded (faucet_sent a (GET (the (faucet_url a) @ ''/health'')))
                \<lparr>name = ''Faucet Health'', passed = False,
                 message =
                   (let msg = py_str (case map_of err ''message'' of
                                        None \<Rightarrow> JStr ''Unknown error'' | Some m \<Rightarrow> m)
                    in if str_contains ''502'' msg \<or> str_contains ''Bad Gateway'' msg
                         then ''502 Bad Gateway - Faucet service is down''
                       else if str_contains ''Connection refused'' msg
                         then ''Connection refused - Faucet not running''
                       else ''Error: '' @ msg),
                 details = None\<rparr>)"
    by (simp add: test_faucet_health_def and_then_faucet_get step_simps Let_def)
next
  assume ne: "map_of kvs ''error'' = None"
  obtain out a' where t: "test_faucet_health e a = (out, a')"
    by (cases "test_faucet_health e a")
  have "out = Inr True"
    using t assms(1,2) ne
    by (auto simp: test_faucet_health_def and_then_faucet_get step_simps split: if_splits)
  moreover from this t have "log_of a' = log_of a @ [(''Faucet Health'', True)]"
    using on_returnD [OF test_faucet_health_effect, of e a True a'] by simp
  ultimately show "fst (test_faucet_health e a) = Inr True"
    and "log_of (snd (test_faucet_health e a)) = log_of a @ [(''Faucet Health'', True)]"
    using t by simp_all
qed

theorem faucet_health_verdict_witness:
  "test_faucet_health env_bad_gateway agent0 =
     (Inr False,
      recorded (faucet_sent agent0 (GET ''http://localhost:3000/health''))
        \<lparr>name = ''Faucet Health'', passed = False,
         message = ''502 Bad Gateway - Faucet service is down'', details = None\<rparr>)
   \<and> test_faucet_health env_refused agent0 =
     (Inr False,
      recorded (faucet_sent agent0 (GET ''http://localhost:3000/health''))
        \<lparr>name = ''Faucet Health'', passed = False,
         message = ''Connection refused - Faucet not running'', details = None\<rparr>)
   \<and> fst (test_faucet_health env_null_balance agent0) = Inr True
   \<and> log_of (snd (test_faucet_health env_null_balance agent0)) = [(''Faucet Health'', True)]"
proof -
  have d: "dec_int 502 = ''502''" by (simp add: dec_int_def digit_char_def)
  show ?thesis
    using faucet_health_verdict [of agent0 env_bad_gateway
        "[(''error'', JObj [(''code'', JInt (- 1)),
                           (''message'', JStr ''HTTP Error 502: Bad Gateway'')])]"]
      faucet_health_verdict [of agent0 env_refused
        "[(''error'', JObj [(''code'', JInt (- 1)),
             (''message'', JStr ''<urlopen error [Errno 111] Connection refused>'')])]"]
      faucet_health_verdict [of agent0 env_null_balance "[(''status'', JStr ''ok'')]"]
    by (simp add: py_not_def faucet_get_result_def env_bad_gateway_def env_refused_def
        env_null_balance_def env_with_balance_def error_obj_def d)
qed

subsection \<open>C7: the verdict of the notarial probe\<close>

text \<open>
  C7. Let the response to \<^verbatim>\<open>notarial_getAttestationsByOwner\<close> be a JSON object, its
  \<^verbatim>\<open>error\<close> member (read only when there is no \<^verbatim>\<open>result\<close> key) being an object.
  Then the probe returns and records exactly one entry, named \<open>Notarial Service\<close>,
  whose verdict \<open>ok\<close> is also the value returned, and:
  \<^item> \<open>ok\<close> holds whenever the response has a \<^verbatim>\<open>result\<close> key, whatever its value
    (\<^verbatim>\<open>null\<close> and the empty list included);
  \<^item> \<open>ok\<close> holds whenever the response has an \<^verbatim>\<open>error\<close> object whose code is not
    \<open>-32601\<close>;
  \<^item> \<open>ok\<close> fails exactly when, there being no \<^verbatim>\<open>result\<close> key, the error code is
    \<open>-32601\<close> or there is no \<^verbatim>\<open>error\<close> key either.
\<close>

theorem notarial_verdict:
  assumes "rpc_response e a ''notarial_getAttestationsByOwner'' (Some [JStr alice]) = JObj kvs"
    and "\<forall>v. map_of kvs ''result'' = None \<and> map_of kvs ''error'' = Some v \<longrightarrow> (\<exists>err. v = JObj err)"
  shows "case test_notarial_service e a of (out, a') \<Rightarrow>
      (\<exists>ok. out = Inr ok \<and> log_of a' = log_of a @ [(''Notarial Service'', ok)]
       \<and> (map_of kvs ''result'' \<noteq> None \<longrightarrow> ok)
       \<and> (\<forall>err. map_of kvs ''error'' = Some (JObj err)
              \<and> map_of err ''code'' \<noteq> Some (JInt (- 32601)) \<longrightarrow> ok)
       \<and> (\<not> ok \<longleftrightarrow> map_of kvs ''result'' = None \<and>
             (map_of kvs ''error'' = None
              \<or> (\<exists>err. map_of kvs ''error'' = Some (JObj err)
                    \<and> map_of err ''code'' = Some (JInt (- 32601))))))"
proof (cases "map_of kvs ''result''")
  case (Some raw)
  obtain n where "list_count (py_or raw (JList [])) = ret n"
    using list_count_total by blast
  with assms(1) Some show ?thesis
    by (auto simp: test_notarial_service_def step_simps Let_def)
next
  case None
  show ?thesis
  proof (cases "map_of kvs ''error''")
    case N2: None
    with assms(1) None show ?thesis
      by (auto simp: test_notarial_service_def step_simps)
  next
    case (Some v)
    with assms(2) None obtain err where v: "v = JObj err" by blast
    show ?thesis
    proof (cases "map_of err ''code'' = Some (JInt (- 32601))")
      case True
      with assms(1) None Some v show ?thesis
        by (auto simp: test_notarial_service_def step_simps)
    next
      case False
      then have "\<not> py_eq_int (case map_of err ''code'' of None \<Rightarrow> JNull | Some x \<Rightarrow> x) (- 32601)"
        by (cases "map_of err ''code''"; simp) (rename_tac c, case_tac c, auto)
      with assms(1) None Some v False show ?thesis
        by (auto simp: test_notarial_service_def step_simps)
    qed
  qed
qed

theorem notarial_verdict_witness:
  "(case test_notarial_service env_notfound agent0 of
      (out, a') \<Rightarrow> out = Inr False \<and> log_of a' = [(''Notarial Service'', False)])
   \<and> (case test_notarial_service env_empty_list agent0 of
      (out, a') \<Rightarrow> out = Inr True \<and> log_of a' = [(''Notarial Service'', True)])
   \<and> (case test_notarial_service env_refused agent0 of
      (out, a') \<Rightarrow> out = Inr True \<and> log_of a' = [(''Notarial Service'', True)])"
  using notarial_verdict [of env_notfound agent0
      "[(''error'', JObj [(''code'', JInt (- 32601)), (''message'', JStr ''Method not found'')])]"]
    notarial_verdict [of env_empty_list agent0 "[(''result'', JList [])]"]
    notarial_verdict [of env_refused agent0
      "[(''error'', JObj [(''code'', JInt (- 1)),
                         (''message'', JStr ''[Errno 111] Connection refused'')])]"]
  by (auto simp: rpc_response_def env_notfound_def env_empty_list_def env_refused_def
      make_request_result_def error_obj_def split: prod.splits)

subsection \<open>C8: the two balance checks of the full pipeline\<close>

text \<open>
  C8 as the specification states it fails: in the run below the faucet health probe passes,
  then \<^verbatim>\<open>int("0x10")\<close> raises \<^verbatim>\<open>ValueError\<close> in the first balance check. The exception
  ends the run; the log has no \<open>Account Balance\<close> entry and no \<open>Faucet Drip\<close> entry.
\<close>

theorem full_run_hex_balance_counterexample:
  "fst (run_full_test env_hex_balance agent0) = Inl ValueError
   \<and> log_of (snd (run_full_test env_hex_balance agent0)) =
      [(''RPC Connection'', True), (''Chain Info'', True), (''Peer Connections'', False),
       (''Faucet Health'', True), (''Account Selection'', True)]"
  unfolding run_full_test_def env_hex_balance_def
  by (simp add: run_simps stub_balance_hex py_not_def)

text \<open>
  C8, as the code has it. Take a run of the full pipeline on a freshly constructed agent that
  runs to its end, no probe raising. If the log has a passed \<open>Faucet Health\<close> entry,
  the log is the sequence of eighteen entries below, with two \<open>Account Balance\<close>
  entries and the \<open>Faucet Drip\<close> entry between them, and \<^verbatim>\<open>system_account\<close> was called
  exactly twice, both times with the same address. If the log has a failed
  \<open>Faucet Health\<close> entry, the log is the sequence of sixteen entries below, without
  \<open>Faucet Drip\<close> and with one \<open>Account Balance\<close> entry, and \<^verbatim>\<open>system_account\<close> was
  called exactly once.
\<close>

theorem full_run_balance_entries:
  assumes "run_full_test e (NodeAgent_init n f) = (Inr out, a')"
  shows "((''Faucet Health'', True) \<in> set (log_of a') \<longrightarrow>
           map fst (log_of a') = [''RPC Connection'', ''Chain Info'', ''Peer Connections'', ''Faucet Health'',
              ''Account Selection'', ''Account Balance'', ''Faucet Drip'', ''Account Balance'',
              ''Gateway Balance'', ''Gateway Nonce'', ''QRNG Config'', ''QRNG Queues'',
              ''QRNG History'', ''Notarial Service'', ''Governance Stats'', ''Proposals'',
              ''Validator Set'', ''Rewards Info'']
           \<and> (\<exists>addr. filter (\<lambda>c. fst c = ''system_account'') (rpc_calls (wire a')) =
                 [(''system_account'', JList [JStr addr]), (''system_account'', JList [JStr addr])]))
       \<and> ((''Faucet Health'', False) \<in> set (log_of a') \<longrightarrow>
           map fst (log_of a') = [''RPC Connection'', ''Chain Info'', ''Peer Connections'', ''Faucet Health'',
              ''Account Selection'', ''Account Balance'',
              ''Gateway Balance'', ''Gateway Nonce'', ''QRNG Config'', ''QRNG Queues'',
              ''QRNG History'', ''Notarial Service'', ''Governance Stats'', ''Proposals'',
              ''Validator Set'', ''Rewards Info'']
           \<and> (\<exists>addr. filter (\<lambda>c. fst c = ''system_account'') (rpc_calls (wire a')) =
                 [(''system_account'', JList [JStr addr])]))"
  using on_returnD [OF full_run_shape assms]
  by (auto split: if_splits)

theorem full_run_balance_entries_witness:
  "map fst (log_of (snd (run_full_test env_null_balance agent0))) = [''RPC Connection'', ''Chain Info'', ''Peer Connections'', ''Faucet Health'',
              ''Account Selection'', ''Account Balance'', ''Faucet Drip'', ''Account Balance'',
              ''Gateway Balance'', ''Gateway Nonce'', ''QRNG Config'', ''QRNG Queues'',
              ''QRNG History'', ''Notarial Service'', ''Governance Stats'', ''Proposals'',
              ''Validator Set'', ''Rewards Info'']
   \<and> map fst (log_of (snd (run_full_test env_null_balance agent_no_faucet))) = [''RPC Connection'', ''Chain Info'', ''Peer Connections'', ''Faucet Health'',
              ''Account Selection'', ''Account Balance'',
              ''Gateway Balance'', ''Gateway Nonce'', ''QRNG Config'', ''QRNG Queues'',
              ''QRNG History'', ''Notarial Service'', ''Governance Stats'', ''Proposals'',
              ''Validator Set'', ''Rewards Info'']"
proof -
  from run_null_balance obtain s where
    "run_full_test env_null_balance (NodeAgent_init ''ws://localhost:9944''
        (Some ''http://localhost:3000''))
      = (Inr (Some s), snd (run_full_test env_null_balance agent0))"
    by (cases "run_full_test env_null_balance agent0") (auto simp: agent0_def)
  from full_run_balance_entries [OF this] run_null_balance
  have 1: "map fst (log_of (snd (run_full_test env_null_balance agent0))) = [''RPC Connection'', ''Chain Info'', ''Peer Connections'', ''Faucet Health'',
              ''Account Selection'', ''Account Balance'', ''Faucet Drip'', ''Account Balance'',
              ''Gateway Balance'', ''Gateway Nonce'', ''QRNG Config'', ''QRNG Queues'',
              ''QRNG History'', ''Notarial Service'', ''Governance Stats'', ''Proposals'',
              ''Validator Set'', ''Rewards Info'']"
    by simp
  from run_no_faucet obtain t where
    "run_full_test env_null_balance (NodeAgent_init ''http://localhost:9944'' None)
      = (Inr (Some t), snd (run_full_test env_null_balance agent_no_faucet))"
    by (cases "run_full_test env_null_balance agent_no_faucet") (auto simp: agent_no_faucet_def)
  from full_run_balance_entries [OF this] run_no_faucet
  have 2: "map fst (log_of (snd (run_full_test env_null_balance agent_no_faucet))) = [''RPC Connection'', ''Chain Info'', ''Peer Connections'', ''Faucet Health'',
              ''Account Selection'', ''Account Balance'',
              ''Gateway Balance'', ''Gateway Nonce'', ''QRNG Config'', ''QRNG Queues'',
              ''QRNG History'', ''Notarial Service'', ''Governance Stats'', ''Proposals'',
              ''Validator Set'', ''Rewards Info'']"
    by simp
  from 1 2 show ?thesis by simp
qed

subsection \<open>C9: the simulator's \<^verbatim>\<open>/v1/random\<close>\<close>




subsection \<open>C10: the node URL\<close>

text \<open>
  C10. The constructor stores the node URL with a leading \<^verbatim>\<open>ws://\<close> rewritten to
  \<^verbatim>\<open>http://\<close> and a leading \<^verbatim>\<open>wss://\<close> rewritten to \<^verbatim>\<open>https://\<close>; the rest of the
  URL goes through the same two replacements, which leave it as it is when it contains
  neither scheme. The faucet URL is stored as given. Every \<^verbatim>\<open>rpc_call\<close> posts to the stored
  node URL, and in both pipelines, whether they return or raise, every JSON-RPC envelope
  went to the URL the constructor stored; the faucet URL is never changed.
\<close>

theorem node_url_rewritten:
  "node_url (NodeAgent_init (''ws://'' @ rest) f) =
     ''http://'' @ py_replace ''wss://'' ''https://'' (py_replace ''ws://'' ''http://'' rest)
   \<and> node_url (NodeAgent_init (''wss://'' @ rest) f) =
     ''https://'' @ py_replace ''wss://'' ''https://'' (py_replace ''ws://'' ''http://'' rest)
   \<and> (\<not> str_contains ''ws://'' rest \<and> \<not> str_contains ''wss://'' rest \<longrightarrow>
        node_url (NodeAgent_init (''ws://'' @ rest) f) = ''http://'' @ rest
        \<and> node_url (NodeAgent_init (''wss://'' @ rest) f) = ''https://'' @ rest)
   \<and> faucet_url (NodeAgent_init n f) = f
   \<and> rpc_call e m ps a
        = (Inr (make_request_result
                 (http e (length (wire a))
                    (POST (node_url a) (rpc_envelope (rpc_id a + 1) m ps)))),
           a\<lparr>rpc_id := rpc_id a + 1,
             wire := wire a @ [POST (node_url a) (rpc_envelope (rpc_id a + 1) m ps)]\<rparr>)
   \<and> set (rpc_urls (wire (snd (run_health_check e (NodeAgent_init n f)))))
        \<subseteq> {node_url (NodeAgent_init n f)}
   \<and> set (rpc_urls (wire (snd (run_full_test e (NodeAgent_init n f)))))
        \<subseteq> {node_url (NodeAgent_init n f)}
   \<and> faucet_url (snd (run_health_check e (NodeAgent_init n f))) = f
   \<and> faucet_url (snd (run_full_test e (NodeAgent_init n f))) = f"
  by (intro conjI node_url_ws node_url_wss node_url_plain rpc_call_unfolded
      steady_urls [OF steady_run_health_check] steady_urls [OF steady_run_full_test]
      init_simps)

theorem node_url_rewritten_witness:
  "node_url (NodeAgent_init ''ws://localhost:9944'' None) = ''http://localhost:9944''
   \<and> node_url (NodeAgent_init ''wss://localhost:9944'' None) = ''https://localhost:9944''"
proof -
  have h: "\<not> str_contains ''ws://'' ''localhost:9944''
           \<and> \<not> str_contains ''wss://'' ''localhost:9944''"
    by simp
  have "node_url (NodeAgent_init (''ws://'' @ ''localhost:9944'') None)
          = ''http://'' @ ''localhost:9944''
        \<and> node_url (NodeAgent_init (''wss://'' @ ''localhost:9944'') None)
          = ''https://'' @ ''localhost:9944''"
    using h node_url_rewritten [where rest = "''localhost:9944''" and f = None
      and n = "''ws://localhost:9944''" and e = env_refused and m = "''system_health''"
      and ps = None and a = agent0]
    by blast
  then show ?thesis by simp
qed

end
